theory Spec2Isabelle
  imports Main
begin

section \<open>JSON values and the Python operations used by \<^verbatim>\<open>core/commands.py\<close>\<close>

text \<open>
  The payload of a command (\<^verbatim>\<open>command.json\<close>), the parsed values inside it and the
  answers of the API client are JSON documents held in Python dicts, lists, strings, ints,
  bools and \<^verbatim>\<open>None\<close>. A dict keeps its keys in insertion order and has no duplicate
  keys; it is an association list here. Floating point numbers are not part of the model.
\<close>

datatype json_value =
    JNull
  | JBool bool
  | JInt int
  | JStr string
  | JList "json_value list"
  | JObj "(string \<times> json_value) list"

text \<open>
  The exceptions of \<^verbatim>\<open>core/exceptions.py\<close> that the module raises, with the arguments the
  module passes, and the built-in exceptions of the Python operations it relies on.
  \<open>ClientError\<close> stands for whatever the client collaborator raises itself.
\<close>

datatype error =
    KeyError string
  | TypeError
  | AttributeError
  | ValueError string
  | ApiNotImplemented
  | InvalidPropertyDataType json_value json_value json_value
  | NoToken string
  | NoStatementsForThatProperty json_value json_value
  | NoStatementsWithThatValue json_value json_value json_value
  | ClientError string

text \<open>
  Python's \<^verbatim>\<open>==\<close> on JSON values: a bool equals the int 0 or 1, lists are compared
  element by element, dicts by their length and then key by key, whatever the order of
  the keys.
\<close>

fun py_eq :: "json_value \<Rightarrow> json_value \<Rightarrow> bool" where
  "py_eq JNull b = (b = JNull)"
| "py_eq (JBool x) b =
     (case b of JBool y \<Rightarrow> x = y | JInt j \<Rightarrow> (if x then 1 else 0) = j | _ \<Rightarrow> False)"
| "py_eq (JInt i) b =
     (case b of JInt j \<Rightarrow> i = j | JBool y \<Rightarrow> i = (if y then 1 else 0) | _ \<Rightarrow> False)"
| "py_eq (JStr s) b = (b = JStr s)"
| "py_eq (JList xs) b =
     (case b of JList ys \<Rightarrow> list_all2 py_eq xs ys | _ \<Rightarrow> False)"
| "py_eq (JObj xs) b =
     (case b of
        JObj ys \<Rightarrow>
          length xs = length ys \<and>
          list_all (\<lambda>(k, v). case map_of ys k of None \<Rightarrow> False | Some w \<Rightarrow> py_eq v w) xs
      | _ \<Rightarrow> False)"

text \<open>\<^verbatim>\<open>x in [a, b, ...]\<close>: some element of the list equals \<open>x\<close>.\<close>

definition py_in :: "json_value \<Rightarrow> json_value list \<Rightarrow> bool" where
  "py_in x ys = list_ex (\<lambda>y. py_eq x y) ys"

text \<open>
  \<^verbatim>\<open>d["k"]\<close> with a string key: a dict without the key raises \<^verbatim>\<open>KeyError\<close>; a list or
  a string wants an integer index and every other value is not subscriptable, which is a
  \<^verbatim>\<open>TypeError\<close> in both cases.
\<close>

definition subscript :: "json_value \<Rightarrow> string \<Rightarrow> error + json_value" where
  "subscript d k =
     (case d of
        JObj kvs \<Rightarrow> (case map_of kvs k of None \<Rightarrow> Inl (KeyError k) | Some v \<Rightarrow> Inr v)
      | _ \<Rightarrow> Inl TypeError)"

text \<open>
  \<^verbatim>\<open>d.get(k, default)\<close>: only a dict has the method. The key is hashed first, so a list or a
  dict as key is a \<^verbatim>\<open>TypeError\<close>; the keys of a JSON dict are strings, so any other key
  that is not a string is absent.
\<close>

definition get :: "json_value \<Rightarrow> json_value \<Rightarrow> json_value \<Rightarrow> error + json_value" where
  "get d k dflt =
     (case d of
        JObj kvs \<Rightarrow>
          (case k of
             JStr s \<Rightarrow> (case map_of kvs s of None \<Rightarrow> Inr dflt | Some v \<Rightarrow> Inr v)
           | JList _ \<Rightarrow> Inl TypeError
           | JObj _ \<Rightarrow> Inl TypeError
           | _ \<Rightarrow> Inr dflt)
      | _ \<Rightarrow> Inl AttributeError)"

text \<open>\<^verbatim>\<open>len(x)\<close>: strings, lists and dicts have a length.\<close>

definition py_len :: "json_value \<Rightarrow> error + nat" where
  "py_len x =
     (case x of
        JStr s \<Rightarrow> Inr (length s)
      | JList xs \<Rightarrow> Inr (length xs)
      | JObj kvs \<Rightarrow> Inr (length kvs)
      | _ \<Rightarrow> Inl TypeError)"

text \<open>
  \<^verbatim>\<open>for x in v\<close>: the elements of a list, the keys of a dict, the characters of a string,
  in order; nothing else is iterable.
\<close>

definition py_iter :: "json_value \<Rightarrow> error + json_value list" where
  "py_iter x =
     (case x of
        JList xs \<Rightarrow> Inr xs
      | JObj kvs \<Rightarrow> Inr (map (\<lambda>kv. JStr (fst kv)) kvs)
      | JStr s \<Rightarrow> Inr (map (\<lambda>c. JStr [c]) s)
      | _ \<Rightarrow> Inl TypeError)"

text \<open>
  \<^verbatim>\<open>d[k] = v\<close> on a dict: an existing key keeps its place, a new key goes last.
\<close>

fun setitem :: "(string \<times> json_value) list \<Rightarrow> string \<Rightarrow> json_value \<Rightarrow> (string \<times> json_value) list" where
  "setitem [] k v = [(k, v)]"
| "setitem (p # ps) k v = (if fst p = k then (k, v) # ps else p # setitem ps k v)"


section \<open>Value translator\<close>

definition parser_value_to_api_value :: "json_value \<Rightarrow> error + json_value" where
  "parser_value_to_api_value parser_value =
     (case subscript parser_value ''type'' of
        Inl e \<Rightarrow> Inl e
      | Inr t \<Rightarrow>
          if py_in t [JStr ''novalue'', JStr ''somevalue'']
          then Inr (JObj [(''type'', t)])
          else (case subscript parser_value ''value'' of
                  Inl e \<Rightarrow> Inl e
                | Inr v \<Rightarrow> Inr (JObj [(''type'', JStr ''value''), (''content'', v)])))"


section \<open>Commands, the client collaborator and the calls made to it\<close>

text \<open>
  Modelled from the spec: the action constants of \<^verbatim>\<open>BatchCommand\<close> (\<^verbatim>\<open>core/models.py\<close> is
  not among the sources). The spec names the actions add, create and remove;
  \<open>ACTION_OTHER\<close> stands for every other value the field can hold.
\<close>

datatype action = ACTION_CREATE | ACTION_ADD | ACTION_REMOVE | ACTION_OTHER nat

record batch =
  user :: string

record command =
  action :: action
  json :: json_value
  batch :: batch

text \<open>The operations of the client, with their arguments: one value per call made.\<close>

datatype call =
    get_property_data_type json_value
  | add_statement json_value json_value
  | add_label json_value json_value
  | add_description json_value json_value
  | add_alias json_value json_value
  | add_sitelink json_value json_value
  | create_item json_value
  | get_statements json_value
  | delete_statement json_value json_value

text \<open>
  What lies outside the module. \<open>has_token\<close> says for which user names
  \<^verbatim>\<open>Client.from_username\<close> finds a token; the client of a user is identified by the user
  name. \<open>api\<close> is the remote side: the answer of a call of a user's client, or the
  message of the exception the client raises (a \<open>ClientError\<close>); either may depend on
  every call made before it. \<open>py_str\<close> is Python's
  formatting of a value that is not a string inside an f-string.
  The state that the module changes is the list of the calls made so far.
\<close>

record env =
  has_token :: "string \<Rightarrow> bool"
  api :: "string \<Rightarrow> call list \<Rightarrow> call \<Rightarrow> string + json_value"
  py_str :: "json_value \<Rightarrow> string"

definition invoke :: "env \<Rightarrow> string \<Rightarrow> call \<Rightarrow> call list \<Rightarrow> (error + json_value) \<times> call list" where
  "invoke env cl c log =
     (case api env cl log c of
        Inl msg \<Rightarrow> (Inl (ClientError msg), log @ [c])
      | Inr r \<Rightarrow> (Inr r, log @ [c]))"

text \<open>\<^verbatim>\<open>f"{v}"\<close>: a string is inserted as it is.\<close>

definition format_field :: "env \<Rightarrow> json_value \<Rightarrow> string" where
  "format_field env v = (case v of JStr s \<Rightarrow> s | _ \<Rightarrow> py_str env v)"


section \<open>Command handlers\<close>

text \<open>
  The five classes, each with the attributes its constructor sets. \<open>value_f\<close> is the
  attribute \<^verbatim>\<open>value\<close>.
\<close>

datatype handler =
    AddStatement (command: command) (entity_id: json_value) (property_id: json_value)
      (parser_value: json_value) (data_type: json_value)
      (references: json_value) (qualifiers: json_value)
  | AddLabelDescriptionOrAlias (command: command) (what: json_value) (entity_id: json_value)
      (language: json_value) (value_f: json_value)
  | AddSitelink (command: command) (what: json_value) (entity_id: json_value)
      (site: json_value) (value_f: json_value)
  | CreateItem (command: command)
  | RemoveStatement (command: command) (entity_id: json_value) (property_id: json_value)
      (parser_value: json_value) (api_value: json_value) (ids_to_delete: "json_value list")

subsection \<open>Utilities\<close>

definition client :: "env \<Rightarrow> handler \<Rightarrow> error + string" where
  "client env self =
     (let username = user (batch (command self))
      in if has_token env username then Inr username else Inl (NoToken username))"

definition comment :: "handler \<Rightarrow> error + json_value" where
  "comment self = get (json (command self)) (JStr ''summary'') (JStr [])"

subsection \<open>AddStatement\<close>

definition verify_data_type :: "env \<Rightarrow> handler \<Rightarrow> call list \<Rightarrow> (error + unit) \<times> call list" where
  "verify_data_type env self log =
     (case client env self of
        Inl e \<Rightarrow> (Inl e, log)
      | Inr cl \<Rightarrow>
          (case invoke env cl (get_property_data_type (property_id self)) log of
             (Inl e, log') \<Rightarrow> (Inl e, log')
           | (Inr needed_data_type, log') \<Rightarrow>
               if py_in (data_type self) [JStr ''somevalue'', JStr ''novalue'']
               then (Inr (), log')
               else if \<not> py_eq needed_data_type (data_type self)
               then (Inl (InvalidPropertyDataType (property_id self) (data_type self)
                            needed_data_type), log')
               else (Inr (), log')))"

definition AddStatement_init :: "env \<Rightarrow> command \<Rightarrow> call list \<Rightarrow> (error + handler) \<times> call list" where
  "AddStatement_init env c log =
     (let j = json c in
      case subscript j ''entity'' of Inl e \<Rightarrow> (Inl e, log) | Inr entity \<Rightarrow>
      case subscript entity ''id'' of Inl e \<Rightarrow> (Inl e, log) | Inr eid \<Rightarrow>
      case subscript j ''property'' of Inl e \<Rightarrow> (Inl e, log) | Inr pid \<Rightarrow>
      case subscript j ''value'' of Inl e \<Rightarrow> (Inl e, log) | Inr pv \<Rightarrow>
      case subscript pv ''type'' of Inl e \<Rightarrow> (Inl e, log) | Inr dt \<Rightarrow>
      case get j (JStr ''references'') (JList []) of Inl e \<Rightarrow> (Inl e, log) | Inr refs \<Rightarrow>
      case get j (JStr ''qualifiers'') (JList []) of Inl e \<Rightarrow> (Inl e, log) | Inr quals \<Rightarrow>
        (let self = AddStatement c eid pid pv dt refs quals in
         case verify_data_type env self log of
           (Inl e, log') \<Rightarrow> (Inl e, log')
         | (Inr _, log') \<Rightarrow> (Inr self, log')))"

text \<open>
  One qualifier or one part of a reference, as both loops of \<^verbatim>\<open>body\<close> translate it:
  \<^verbatim>\<open>{"property": {"id": q["property"]}, "value": parser_value_to_api_value(q["value"])}\<close>.
\<close>

definition fix_part :: "json_value \<Rightarrow> error + json_value" where
  "fix_part q =
     (case subscript q ''property'' of Inl e \<Rightarrow> Inl e | Inr p \<Rightarrow>
      case subscript q ''value'' of Inl e \<Rightarrow> Inl e | Inr v \<Rightarrow>
      case parser_value_to_api_value v of Inl e \<Rightarrow> Inl e | Inr av \<Rightarrow>
        Inr (JObj [(''property'', JObj [(''id'', p)]), (''value'', av)]))"

fun fix_parts :: "json_value list \<Rightarrow> error + json_value list" where
  "fix_parts [] = Inr []"
| "fix_parts (q # qs) =
     (case fix_part q of Inl e \<Rightarrow> Inl e | Inr x \<Rightarrow>
      case fix_parts qs of Inl e \<Rightarrow> Inl e | Inr xs \<Rightarrow> Inr (x # xs))"

fun fix_refs :: "json_value list \<Rightarrow> error + json_value list" where
  "fix_refs [] = Inr []"
| "fix_refs (ref # refs) =
     (case py_iter ref of Inl e \<Rightarrow> Inl e | Inr parts \<Rightarrow>
      case fix_parts parts of Inl e \<Rightarrow> Inl e | Inr fixed_parts \<Rightarrow>
      case fix_refs refs of Inl e \<Rightarrow> Inl e | Inr all_refs \<Rightarrow>
        Inr (JObj [(''parts'', JList fixed_parts)] # all_refs))"

definition AddStatement_body :: "handler \<Rightarrow> error + json_value" where
  "AddStatement_body self =
     (case py_iter (qualifiers self) of Inl e \<Rightarrow> Inl e | Inr qs \<Rightarrow>
      case fix_parts qs of Inl e \<Rightarrow> Inl e | Inr all_quali \<Rightarrow>
      case py_iter (references self) of Inl e \<Rightarrow> Inl e | Inr refs \<Rightarrow>
      case fix_refs refs of Inl e \<Rightarrow> Inl e | Inr all_refs \<Rightarrow>
      case parser_value_to_api_value (parser_value self) of Inl e \<Rightarrow> Inl e | Inr v \<Rightarrow>
        Inr (JObj [(''statement'',
               JObj [(''property'', JObj [(''id'', property_id self)]),
                     (''value'', v),
                     (''qualifiers'', JList all_quali),
                     (''references'', JList all_refs)])]))"

subsection \<open>AddLabelDescriptionOrAlias\<close>

definition AddLabelDescriptionOrAlias_init :: "command \<Rightarrow> error + handler" where
  "AddLabelDescriptionOrAlias_init c =
     (let j = json c in
      case subscript j ''what'' of Inl e \<Rightarrow> Inl e | Inr w \<Rightarrow>
      case subscript j ''item'' of Inl e \<Rightarrow> Inl e | Inr eid \<Rightarrow>
      case subscript j ''language'' of Inl e \<Rightarrow> Inl e | Inr lang \<Rightarrow>
      case subscript j ''value'' of Inl e \<Rightarrow> Inl e | Inr v \<Rightarrow>
      case subscript v ''value'' of Inl e \<Rightarrow> Inl e | Inr vv \<Rightarrow>
        Inr (AddLabelDescriptionOrAlias c w eid lang vv))"

definition AddLabelDescriptionOrAlias_body :: "env \<Rightarrow> handler \<Rightarrow> error + json_value" where
  "AddLabelDescriptionOrAlias_body env self =
     (let path = (if \<not> py_eq (what self) (JStr ''alias'')
                  then ''/'' @ format_field env (language self)
                  else ''/'' @ format_field env (language self) @ ''/0'')
      in Inr (JObj [(''patch'',
                JList [JObj [(''op'', JStr ''add''),
                             (''path'', JStr path),
                             (''value'', value_f self)]])]))"

subsection \<open>AddSitelink\<close>

definition AddSitelink_init :: "command \<Rightarrow> error + handler" where
  "AddSitelink_init c =
     (let j = json c in
      case subscript j ''what'' of Inl e \<Rightarrow> Inl e | Inr w \<Rightarrow>
      case subscript j ''item'' of Inl e \<Rightarrow> Inl e | Inr eid \<Rightarrow>
      case subscript j ''site'' of Inl e \<Rightarrow> Inl e | Inr s \<Rightarrow>
      case subscript j ''value'' of Inl e \<Rightarrow> Inl e | Inr v \<Rightarrow>
      case subscript v ''value'' of Inl e \<Rightarrow> Inl e | Inr vv \<Rightarrow>
        Inr (AddSitelink c w eid s vv))"

definition AddSitelink_body :: "env \<Rightarrow> handler \<Rightarrow> error + json_value" where
  "AddSitelink_body env self =
     Inr (JObj [(''patch'',
            JList [JObj [(''op'', JStr ''replace''),
                         (''path'', JStr (''/'' @ format_field env (site self) @ ''/title'')),
                         (''value'', value_f self)]])])"

subsection \<open>CreateItem\<close>

definition CreateItem_init :: "command \<Rightarrow> error + handler" where
  "CreateItem_init c = Inr (CreateItem c)"

definition CreateItem_body :: "handler \<Rightarrow> error + json_value" where
  "CreateItem_body self = Inr (JObj [(''item'', JObj [])])"

subsection \<open>RemoveStatement\<close>

definition get_statements_for_our_property ::
  "env \<Rightarrow> handler \<Rightarrow> call list \<Rightarrow> (error + json_value) \<times> call list" where
  "get_statements_for_our_property env self log =
     (case client env self of
        Inl e \<Rightarrow> (Inl e, log)
      | Inr cl \<Rightarrow>
          (case invoke env cl (get_statements (entity_id self)) log of
             (Inl e, log') \<Rightarrow> (Inl e, log')
           | (Inr all_statements, log') \<Rightarrow>
               (case get all_statements (property_id self) (JList []) of
                  Inl e \<Rightarrow> (Inl e, log')
                | Inr our_statements \<Rightarrow>
                    (case py_len our_statements of
                       Inl e \<Rightarrow> (Inl e, log')
                     | Inr n \<Rightarrow>
                         if n = 0
                         then (Inl (NoStatementsForThatProperty (entity_id self)
                                      (property_id self)), log')
                         else (Inr our_statements, log')))))"

text \<open>
  The loop of \<^verbatim>\<open>load_ids_to_delete\<close> over the statements, with the list
  \<^verbatim>\<open>ids_to_delete\<close> built so far.
\<close>

fun matching_ids :: "json_value \<Rightarrow> json_value list \<Rightarrow> json_value list \<Rightarrow> error + json_value list" where
  "matching_ids av [] ids = Inr ids"
| "matching_ids av (statement # statements) ids =
     (case subscript statement ''id'' of Inl e \<Rightarrow> Inl e | Inr i \<Rightarrow>
      case subscript statement ''value'' of Inl e \<Rightarrow> Inl e | Inr v \<Rightarrow>
        if py_eq v av then matching_ids av statements (ids @ [i])
        else matching_ids av statements ids)"

definition load_ids_to_delete ::
  "env \<Rightarrow> handler \<Rightarrow> call list \<Rightarrow> (error + json_value list) \<times> call list" where
  "load_ids_to_delete env self log =
     (case get_statements_for_our_property env self log of
        (Inl e, log') \<Rightarrow> (Inl e, log')
      | (Inr our_statements, log') \<Rightarrow>
          (case py_iter our_statements of
             Inl e \<Rightarrow> (Inl e, log')
           | Inr statements \<Rightarrow>
               (case matching_ids (api_value self) statements [] of
                  Inl e \<Rightarrow> (Inl e, log')
                | Inr ids \<Rightarrow>
                    if length ids = 0
                    then (case subscript (parser_value self) ''value'' of
                            Inl e \<Rightarrow> (Inl e, log')
                          | Inr v \<Rightarrow>
                              (Inl (NoStatementsWithThatValue (entity_id self)
                                      (property_id self) v), log'))
                    else (Inr ids, log'))))"

definition RemoveStatement_init :: "env \<Rightarrow> command \<Rightarrow> call list \<Rightarrow> (error + handler) \<times> call list" where
  "RemoveStatement_init env c log =
     (let j = json c in
      case subscript j ''entity'' of Inl e \<Rightarrow> (Inl e, log) | Inr entity \<Rightarrow>
      case subscript entity ''id'' of Inl e \<Rightarrow> (Inl e, log) | Inr eid \<Rightarrow>
      case subscript j ''property'' of Inl e \<Rightarrow> (Inl e, log) | Inr pid \<Rightarrow>
      case subscript j ''value'' of Inl e \<Rightarrow> (Inl e, log) | Inr pv \<Rightarrow>
      case parser_value_to_api_value pv of Inl e \<Rightarrow> (Inl e, log) | Inr av \<Rightarrow>
        (case load_ids_to_delete env (RemoveStatement c eid pid pv av []) log of
           (Inl e, log') \<Rightarrow> (Inl e, log')
         | (Inr ids, log') \<Rightarrow> (Inr (RemoveStatement c eid pid pv av ids), log')))"

definition RemoveStatement_body :: "handler \<Rightarrow> error + json_value" where
  "RemoveStatement_body self = Inr (JObj [])"

subsection \<open>The request body that is sent\<close>

definition body :: "env \<Rightarrow> handler \<Rightarrow> error + json_value" where
  "body env self =
     (case self of
        AddStatement _ _ _ _ _ _ _ \<Rightarrow> AddStatement_body self
      | AddLabelDescriptionOrAlias _ _ _ _ _ \<Rightarrow> AddLabelDescriptionOrAlias_body env self
      | AddSitelink _ _ _ _ _ \<Rightarrow> AddSitelink_body env self
      | CreateItem _ \<Rightarrow> CreateItem_body self
      | RemoveStatement _ _ _ _ _ _ \<Rightarrow> RemoveStatement_body self)"

definition full_body :: "env \<Rightarrow> handler \<Rightarrow> error + json_value" where
  "full_body env self =
     (case body env self of Inl e \<Rightarrow> Inl e | Inr b \<Rightarrow>
      case comment self of Inl e \<Rightarrow> Inl e | Inr cm \<Rightarrow>
        (case b of
           JObj kvs \<Rightarrow> Inr (JObj (setitem (setitem kvs ''comment'' cm) ''bot'' (JBool False)))
         | _ \<Rightarrow> Inl TypeError))"

subsection \<open>Sending\<close>

definition AddStatement_send :: "env \<Rightarrow> handler \<Rightarrow> call list \<Rightarrow> (error + json_value) \<times> call list" where
  "AddStatement_send env self log =
     (case full_body env self of Inl e \<Rightarrow> (Inl e, log) | Inr fb \<Rightarrow>
      case client env self of Inl e \<Rightarrow> (Inl e, log) | Inr cl \<Rightarrow>
        invoke env cl (add_statement (entity_id self) fb) log)"

definition AddLabelDescriptionOrAlias_send ::
  "env \<Rightarrow> handler \<Rightarrow> call list \<Rightarrow> (error + json_value) \<times> call list" where
  "AddLabelDescriptionOrAlias_send env self log =
     (case full_body env self of Inl e \<Rightarrow> (Inl e, log) | Inr fb \<Rightarrow>
      case client env self of Inl e \<Rightarrow> (Inl e, log) | Inr cl \<Rightarrow>
        if py_eq (what self) (JStr ''label'')
        then invoke env cl (add_label (entity_id self) fb) log
        else if py_eq (what self) (JStr ''description'')
        then invoke env cl (add_description (entity_id self) fb) log
        else if py_eq (what self) (JStr ''alias'')
        then invoke env cl (add_alias (entity_id self) fb) log
        else (Inl (ValueError ([CHR 0x27] @ ''what'' @ [CHR 0x27] @
                '' is not label, description or alias.'')), log))"

definition AddSitelink_send :: "env \<Rightarrow> handler \<Rightarrow> call list \<Rightarrow> (error + json_value) \<times> call list" where
  "AddSitelink_send env self log =
     (case full_body env self of Inl e \<Rightarrow> (Inl e, log) | Inr fb \<Rightarrow>
      case client env self of Inl e \<Rightarrow> (Inl e, log) | Inr cl \<Rightarrow>
        invoke env cl (add_sitelink (entity_id self) fb) log)"

definition CreateItem_send :: "env \<Rightarrow> handler \<Rightarrow> call list \<Rightarrow> (error + json_value) \<times> call list" where
  "CreateItem_send env self log =
     (case full_body env self of Inl e \<Rightarrow> (Inl e, log) | Inr fb \<Rightarrow>
      case client env self of Inl e \<Rightarrow> (Inl e, log) | Inr cl \<Rightarrow>
        invoke env cl (create_item fb) log)"

text \<open>
  The loop of \<^verbatim>\<open>RemoveStatement.send\<close> over \<^verbatim>\<open>ids_to_delete\<close>, with the list
  \<^verbatim>\<open>responses\<close> built so far.
\<close>

fun delete_each ::
  "env \<Rightarrow> string \<Rightarrow> json_value \<Rightarrow> json_value list \<Rightarrow> json_value list \<Rightarrow> call list
     \<Rightarrow> (error + json_value list) \<times> call list" where
  "delete_each env cl fb [] responses log = (Inr responses, log)"
| "delete_each env cl fb (i # ids) responses log =
     (case invoke env cl (delete_statement i fb) log of
        (Inl e, log') \<Rightarrow> (Inl e, log')
      | (Inr res, log') \<Rightarrow> delete_each env cl fb ids (responses @ [res]) log')"

definition RemoveStatement_send :: "env \<Rightarrow> handler \<Rightarrow> call list \<Rightarrow> (error + json_value) \<times> call list" where
  "RemoveStatement_send env self log =
     (case full_body env self of Inl e \<Rightarrow> (Inl e, log) | Inr fb \<Rightarrow>
      case client env self of Inl e \<Rightarrow> (Inl e, log) | Inr cl \<Rightarrow>
        (case delete_each env cl fb (ids_to_delete self) [] log of
           (Inl e, log') \<Rightarrow> (Inl e, log')
         | (Inr responses, log') \<Rightarrow> (Inr (JList responses), log')))"

definition send :: "env \<Rightarrow> handler \<Rightarrow> call list \<Rightarrow> (error + json_value) \<times> call list" where
  "send env self log =
     (case self of
        AddStatement _ _ _ _ _ _ _ \<Rightarrow> AddStatement_send env self log
      | AddLabelDescriptionOrAlias _ _ _ _ _ \<Rightarrow> AddLabelDescriptionOrAlias_send env self log
      | AddSitelink _ _ _ _ _ \<Rightarrow> AddSitelink_send env self log
      | CreateItem _ \<Rightarrow> CreateItem_send env self log
      | RemoveStatement _ _ _ _ _ _ \<Rightarrow> RemoveStatement_send env self log)"


section \<open>Command builder\<close>

definition build :: "env \<Rightarrow> command \<Rightarrow> call list \<Rightarrow> (error + handler) \<times> call list" where
  "build env c log =
     (if action c = ACTION_ADD then
        (case subscript (json c) ''what'' of
           Inl e \<Rightarrow> (Inl e, log)
         | Inr w \<Rightarrow>
             if py_eq w (JStr ''statement'') then AddStatement_init env c log
             else if py_in w [JStr ''label'', JStr ''description'', JStr ''alias'']
             then (AddLabelDescriptionOrAlias_init c, log)
             else if py_eq w (JStr ''sitelink'') then (AddSitelink_init c, log)
             else (Inl ApiNotImplemented, log))
      else if action c = ACTION_CREATE then
        (case subscript (json c) ''type'' of
           Inl e \<Rightarrow> (Inl e, log)
         | Inr t \<Rightarrow>
             if py_eq t (JStr ''item'') then (CreateItem_init c, log)
             else if py_eq t (JStr ''property'') then (Inl ApiNotImplemented, log)
             else (Inl ApiNotImplemented, log))
      else if action c = ACTION_REMOVE then
        (case subscript (json c) ''what'' of
           Inl e \<Rightarrow> (Inl e, log)
         | Inr w \<Rightarrow>
             if py_eq w (JStr ''statement'') then RemoveStatement_init env c log
             else (Inl ApiNotImplemented, log))
      else (Inl ApiNotImplemented, log))"

definition build_and_send :: "env \<Rightarrow> command \<Rightarrow> call list \<Rightarrow> (error + json_value) \<times> call list" where
  "build_and_send env c log =
     (case build env c log of
        (Inl e, log') \<Rightarrow> (Inl e, log')
      | (Inr api_command, log') \<Rightarrow> send env api_command log')"


section \<open>Relations in which the properties are stated\<close>

text \<open>
  \<open>translated_part q x\<close>: \<open>x\<close> is \<^verbatim>\<open>{property: {id: p}, value: v'}\<close> for the property
  \<open>p\<close> of the qualifier or reference part \<open>q\<close> and the translation \<open>v'\<close> of its value.
  \<open>translated_reference r x\<close>: \<open>x\<close> is \<^verbatim>\<open>{parts: [...]}\<close> with the parts of the
  reference \<open>r\<close> translated one by one, in their order.
\<close>

definition translated_part :: "json_value \<Rightarrow> json_value \<Rightarrow> bool" where
  "translated_part q x \<longleftrightarrow>
     (\<exists>p v av. subscript q ''property'' = Inr p \<and> subscript q ''value'' = Inr v
        \<and> parser_value_to_api_value v = Inr av
        \<and> x = JObj [(''property'', JObj [(''id'', p)]), (''value'', av)])"

definition translated_reference :: "json_value \<Rightarrow> json_value \<Rightarrow> bool" where
  "translated_reference r x \<longleftrightarrow>
     (\<exists>parts fixed. py_iter r = Inr parts \<and> list_all2 translated_part parts fixed
        \<and> x = JObj [(''parts'', JList fixed)])"


text \<open>The request body that a call carries, for the operations that take one.\<close>

definition request_body :: "call \<Rightarrow> json_value option" where
  "request_body x =
     (case x of
        get_property_data_type _ \<Rightarrow> None
      | add_statement _ b \<Rightarrow> Some b
      | add_label _ b \<Rightarrow> Some b
      | add_description _ b \<Rightarrow> Some b
      | add_alias _ b \<Rightarrow> Some b
      | add_sitelink _ b \<Rightarrow> Some b
      | create_item b \<Rightarrow> Some b
      | get_statements _ \<Rightarrow> None
      | delete_statement _ b \<Rightarrow> Some b)"


text \<open>
  \<open>has_value av statement\<close>: the statement, as the API lists it, has a \<^verbatim>\<open>value\<close> that
  equals the API value \<open>av\<close>.
\<close>

definition has_value :: "json_value \<Rightarrow> json_value \<Rightarrow> bool" where
  "has_value av statement \<longleftrightarrow>
     (\<exists>v. subscript statement ''value'' = Inr v \<and> py_eq v av)"


section \<open>Example data\<close>

text \<open>
  A remote side and some commands on which the definitions above are evaluated further
  down. The user \<^verbatim>\<open>alice\<close> has a token; every property has the data type \<^verbatim>\<open>quantity\<close>;
  every entity has three statements on \<^verbatim>\<open>P31\<close> and none on any other property.
\<close>

definition example_env :: env where
  "example_env =
     \<lparr> has_token = (\<lambda>u. u = ''alice''),
       api = (\<lambda>u log c.
                case c of
                  get_property_data_type p \<Rightarrow> Inr (JStr ''quantity'')
                | get_statements e \<Rightarrow>
                    Inr (JObj [(''P31'',
                           JList [JObj [(''id'', JStr ''Q1$a''),
                                        (''value'', JObj [(''content'', JStr ''Q5''),
                                                          (''type'', JStr ''value'')])],
                                  JObj [(''id'', JStr ''Q1$b''),
                                        (''value'', JObj [(''type'', JStr ''novalue'')])],
                                  JObj [(''id'', JStr ''Q1$c''),
                                        (''value'', JObj [(''type'', JStr ''value''),
                                                          (''content'', JStr ''Q5'')])]])])
                | delete_statement i b \<Rightarrow> Inr (JObj [(''deleted'', i)])
                | _ \<Rightarrow> Inr (JObj [])),
       py_str = (\<lambda>v. ''?'') \<rparr>"

definition example_command :: "action \<Rightarrow> (string \<times> json_value) list \<Rightarrow> command" where
  "example_command a kvs = \<lparr> action = a, json = JObj kvs, batch = \<lparr> user = ''alice'' \<rparr> \<rparr>"

definition example_add_statement :: "json_value \<Rightarrow> command" where
  "example_add_statement pv =
     example_command ACTION_ADD
       [(''what'', JStr ''statement''),
        (''entity'', JObj [(''type'', JStr ''item''), (''id'', JStr ''Q1'')]),
        (''property'', JStr ''P1082''),
        (''value'', pv),
        (''qualifiers'',
           JList [JObj [(''property'', JStr ''P585''),
                        (''value'', JObj [(''type'', JStr ''somevalue''),
                                          (''value'', JStr ''somevalue'')])]]),
        (''references'',
           JList [JList [JObj [(''property'', JStr ''P854''),
                               (''value'', JObj [(''type'', JStr ''string''),
                                                 (''value'', JStr ''census'')])]]]),
        (''summary'', JStr ''population'')]"

definition example_add_text :: "string \<Rightarrow> command" where
  "example_add_text w =
     example_command ACTION_ADD
       [(''what'', JStr w),
        (''item'', JStr ''Q1''),
        (''language'', JStr ''en''),
        (''site'', JStr ''enwiki''),
        (''value'', JObj [(''type'', JStr ''string''), (''value'', JStr ''Earth'')])]"

definition example_remove_statement :: "string \<Rightarrow> json_value \<Rightarrow> command" where
  "example_remove_statement p pv =
     example_command ACTION_REMOVE
       [(''what'', JStr ''statement''),
        (''entity'', JObj [(''type'', JStr ''item''), (''id'', JStr ''Q1'')]),
        (''property'', JStr p),
        (''value'', pv)]"


section \<open>Properties of the Python operations\<close>

lemma py_eq_JStr [simp]: "py_eq x (JStr s) \<longleftrightarrow> x = JStr s"
  by (cases x) auto

lemma py_in_Nil [simp]: "py_in x [] \<longleftrightarrow> False"
  by (simp add: py_in_def)

lemma py_in_Cons_JStr [simp]: "py_in x (JStr a # ys) \<longleftrightarrow> x = JStr a \<or> py_in x ys"
  by (simp add: py_in_def)


section \<open>Properties of the value translator\<close>

text \<open>
  C2. A parsed value whose \<^verbatim>\<open>type\<close> is \<^verbatim>\<open>novalue\<close> or \<^verbatim>\<open>somevalue\<close> is translated to the dict
  that holds this type and nothing else (no \<^verbatim>\<open>content\<close>); any other parsed value is
  translated to \<^verbatim>\<open>{type: "value", content: X}\<close>, where \<open>X\<close> is what its \<^verbatim>\<open>value\<close> field holds.
\<close>

theorem parser_value_to_api_value_shape:
  assumes "subscript pv ''type'' = Inr t"
  shows "((t = JStr ''novalue'' \<or> t = JStr ''somevalue'') \<longrightarrow>
            parser_value_to_api_value pv = Inr (JObj [(''type'', t)]))
       \<and> (\<not> (t = JStr ''novalue'' \<or> t = JStr ''somevalue'') \<longrightarrow>
            (\<forall>x. subscript pv ''value'' = Inr x \<longrightarrow>
               parser_value_to_api_value pv =
                 Inr (JObj [(''type'', JStr ''value''), (''content'', x)])))"
  using assms by (simp add: parser_value_to_api_value_def)

theorem parser_value_to_api_value_shape_witness:
  "parser_value_to_api_value (JObj [(''type'', JStr ''somevalue'')]) =
     Inr (JObj [(''type'', JStr ''somevalue'')])
   \<and> parser_value_to_api_value (JObj [(''type'', JStr ''string''), (''value'', JStr ''abc'')]) =
     Inr (JObj [(''type'', JStr ''value''), (''content'', JStr ''abc'')])"
proof -
  have t1: "subscript (JObj [(''type'', JStr ''somevalue'')]) ''type'' = Inr (JStr ''somevalue'')"
    by (simp add: subscript_def)
  have t2: "subscript (JObj [(''type'', JStr ''string''), (''value'', JStr ''abc'')]) ''type''
              = Inr (JStr ''string'')"
    by (simp add: subscript_def)
  have v2: "subscript (JObj [(''type'', JStr ''string''), (''value'', JStr ''abc'')]) ''value''
              = Inr (JStr ''abc'')"
    by (simp add: subscript_def)
  from parser_value_to_api_value_shape [OF t1]
  have a: "parser_value_to_api_value (JObj [(''type'', JStr ''somevalue'')]) =
             Inr (JObj [(''type'', JStr ''somevalue'')])"
    by simp
  from parser_value_to_api_value_shape [OF t2] v2
  have b: "parser_value_to_api_value (JObj [(''type'', JStr ''string''), (''value'', JStr ''abc'')]) =
             Inr (JObj [(''type'', JStr ''value''), (''content'', JStr ''abc'')])"
    by simp
  from a b show ?thesis by simp
qed

text \<open>
  C3. On a parsed value whose \<^verbatim>\<open>type\<close> is \<^verbatim>\<open>novalue\<close> or \<^verbatim>\<open>somevalue\<close> the translation
  succeeds, and translating its result again gives that same result.
\<close>

theorem parser_value_to_api_value_idempotent:
  assumes "subscript pv ''type'' = Inr t"
      and "t = JStr ''novalue'' \<or> t = JStr ''somevalue''"
  shows "\<exists>y. parser_value_to_api_value pv = Inr y
            \<and> parser_value_to_api_value y = parser_value_to_api_value pv"
  using assms by (auto simp add: parser_value_to_api_value_def subscript_def)

theorem parser_value_to_api_value_idempotent_witness:
  "\<exists>y. parser_value_to_api_value (JObj [(''value'', JStr ''novalue''), (''type'', JStr ''novalue'')]) = Inr y
      \<and> parser_value_to_api_value y =
          parser_value_to_api_value (JObj [(''value'', JStr ''novalue''), (''type'', JStr ''novalue'')])"
proof -
  have t: "subscript (JObj [(''value'', JStr ''novalue''), (''type'', JStr ''novalue'')]) ''type''
             = Inr (JStr ''novalue'')"
    by (simp add: subscript_def)
  show ?thesis
    by (rule parser_value_to_api_value_idempotent [OF t]) simp
qed

section \<open>Properties of the command builder\<close>

text \<open>Each constructor returns an object of its own class.\<close>

lemma AddStatement_init_class:
  "AddStatement_init env c log = (Inr h, log') \<Longrightarrow> is_AddStatement h"
  by (auto simp add: AddStatement_init_def Let_def split: sum.splits prod.splits)

lemma AddLabelDescriptionOrAlias_init_class:
  "AddLabelDescriptionOrAlias_init c = Inr h \<Longrightarrow> is_AddLabelDescriptionOrAlias h"
  by (auto simp add: AddLabelDescriptionOrAlias_init_def Let_def split: sum.splits)

lemma AddSitelink_init_class:
  "AddSitelink_init c = Inr h \<Longrightarrow> is_AddSitelink h"
  by (auto simp add: AddSitelink_init_def Let_def split: sum.splits)

lemma RemoveStatement_init_class:
  "RemoveStatement_init env c log = (Inr h, log') \<Longrightarrow> is_RemoveStatement h"
  by (auto simp add: RemoveStatement_init_def Let_def split: sum.splits prod.splits)

text \<open>
  C1. \<^verbatim>\<open>build\<close> selects the handler by the action and the kind, which is the field
  \<^verbatim>\<open>type\<close> of a create command and the field \<^verbatim>\<open>what\<close> of every other command: add with
  statement gives what the constructor of \<^verbatim>\<open>AddStatement\<close> gives, add with label,
  description or alias that of \<^verbatim>\<open>AddLabelDescriptionOrAlias\<close>, add with sitelink that of
  \<^verbatim>\<open>AddSitelink\<close>, create with item a \<^verbatim>\<open>CreateItem\<close>, remove with statement that of
  \<^verbatim>\<open>RemoveStatement\<close>; create with property and every other combination raise
  \<^verbatim>\<open>ApiNotImplemented\<close>, and no call is made to the client for them.
\<close>

theorem build_dispatch:
  "(action c = ACTION_ADD \<and> subscript (json c) ''what'' = Inr (JStr ''statement'') \<longrightarrow>
      build env c log = AddStatement_init env c log
      \<and> (\<forall>h log'. build env c log = (Inr h, log') \<longrightarrow> is_AddStatement h))
   \<and> (action c = ACTION_ADD \<and> subscript (json c) ''what'' = Inr w
        \<and> w \<in> {JStr ''label'', JStr ''description'', JStr ''alias''} \<longrightarrow>
      build env c log = (AddLabelDescriptionOrAlias_init c, log)
      \<and> (\<forall>h log'. build env c log = (Inr h, log') \<longrightarrow> is_AddLabelDescriptionOrAlias h))
   \<and> (action c = ACTION_ADD \<and> subscript (json c) ''what'' = Inr (JStr ''sitelink'') \<longrightarrow>
      build env c log = (AddSitelink_init c, log)
      \<and> (\<forall>h log'. build env c log = (Inr h, log') \<longrightarrow> is_AddSitelink h))
   \<and> (action c = ACTION_CREATE \<and> subscript (json c) ''type'' = Inr (JStr ''item'') \<longrightarrow>
      build env c log = (Inr (CreateItem c), log))
   \<and> (action c = ACTION_CREATE \<and> subscript (json c) ''type'' = Inr (JStr ''property'') \<longrightarrow>
      build env c log = (Inl ApiNotImplemented, log))
   \<and> (action c = ACTION_REMOVE \<and> subscript (json c) ''what'' = Inr (JStr ''statement'') \<longrightarrow>
      build env c log = RemoveStatement_init env c log
      \<and> (\<forall>h log'. build env c log = (Inr h, log') \<longrightarrow> is_RemoveStatement h))
   \<and> (action c = ACTION_ADD \<and> subscript (json c) ''what'' = Inr w
        \<and> w \<notin> {JStr ''statement'', JStr ''label'', JStr ''description'', JStr ''alias'',
                 JStr ''sitelink''} \<longrightarrow>
      build env c log = (Inl ApiNotImplemented, log))
   \<and> (action c = ACTION_CREATE \<and> subscript (json c) ''type'' = Inr w \<and> w \<noteq> JStr ''item'' \<longrightarrow>
      build env c log = (Inl ApiNotImplemented, log))
   \<and> (action c = ACTION_REMOVE \<and> subscript (json c) ''what'' = Inr w \<and> w \<noteq> JStr ''statement'' \<longrightarrow>
      build env c log = (Inl ApiNotImplemented, log))
   \<and> (action c \<notin> {ACTION_ADD, ACTION_CREATE, ACTION_REMOVE} \<longrightarrow>
      build env c log = (Inl ApiNotImplemented, log))"
  by (auto simp add: build_def CreateItem_init_def
        dest: AddStatement_init_class AddLabelDescriptionOrAlias_init_class
              AddSitelink_init_class RemoveStatement_init_class)

theorem build_dispatch_witness:
  "(\<exists>h log'. build example_env (example_add_statement
        (JObj [(''type'', JStr ''quantity''), (''value'', JStr ''+42'')])) [] = (Inr h, log')
        \<and> is_AddStatement h)
   \<and> (\<exists>h. build example_env (example_add_text ''label'') [] = (Inr h, [])
        \<and> is_AddLabelDescriptionOrAlias h)
   \<and> (\<exists>h. build example_env (example_add_text ''description'') [] = (Inr h, [])
        \<and> is_AddLabelDescriptionOrAlias h)
   \<and> (\<exists>h. build example_env (example_add_text ''alias'') [] = (Inr h, [])
        \<and> is_AddLabelDescriptionOrAlias h)
   \<and> (\<exists>h. build example_env (example_add_text ''sitelink'') [] = (Inr h, [])
        \<and> is_AddSitelink h)
   \<and> build example_env (example_command ACTION_CREATE [(''type'', JStr ''item'')]) [] =
        (Inr (CreateItem (example_command ACTION_CREATE [(''type'', JStr ''item'')])), [])
   \<and> build example_env (example_command ACTION_CREATE [(''type'', JStr ''property'')]) [] =
        (Inl ApiNotImplemented, [])
   \<and> (\<exists>h log'. build example_env (example_remove_statement ''P31''
        (JObj [(''type'', JStr ''wikibase-entityid''), (''value'', JStr ''Q5'')])) [] = (Inr h, log')
        \<and> is_RemoveStatement h)
   \<and> build example_env (example_add_text ''badge'') [] = (Inl ApiNotImplemented, [])
   \<and> build example_env (example_command ACTION_CREATE [(''type'', JStr ''lexeme'')]) [] =
        (Inl ApiNotImplemented, [])
   \<and> build example_env (example_command ACTION_REMOVE [(''what'', JStr ''label'')]) [] =
        (Inl ApiNotImplemented, [])
   \<and> build example_env (example_command (ACTION_OTHER 3) [(''what'', JStr ''statement'')]) [] =
        (Inl ApiNotImplemented, [])"
proof -
  note example_defs =
    example_env_def example_command_def example_add_statement_def example_add_text_def
    example_remove_statement_def
  note init_defs =
    AddStatement_init_def verify_data_type_def AddLabelDescriptionOrAlias_init_def
    AddSitelink_init_def CreateItem_init_def RemoveStatement_init_def load_ids_to_delete_def
    get_statements_for_our_property_def client_def invoke_def parser_value_to_api_value_def
    subscript_def get_def py_len_def py_iter_def Let_def
  let ?q = "JObj [(''type'', JStr ''quantity''), (''value'', JStr ''+42'')]"
  let ?e = "JObj [(''type'', JStr ''wikibase-entityid''), (''value'', JStr ''Q5'')]"
  have r1: "\<exists>h log'. build example_env (example_add_statement ?q) [] = (Inr h, log')
              \<and> is_AddStatement h"
    using build_dispatch [where c = "example_add_statement ?q" and env = example_env
        and log = "[]"]
    by (simp add: example_defs init_defs)
  have r2: "\<exists>h. build example_env (example_add_text w) [] = (Inr h, [])
              \<and> is_AddLabelDescriptionOrAlias h"
    if "w \<in> {''label'', ''description'', ''alias''}" for w
    using that build_dispatch [where c = "example_add_text w" and env = example_env
        and log = "[]" and w = "JStr w"]
    by (auto simp add: example_defs init_defs)
  have r3: "\<exists>h. build example_env (example_add_text ''sitelink'') [] = (Inr h, [])
              \<and> is_AddSitelink h"
    using build_dispatch [where c = "example_add_text ''sitelink''" and env = example_env
        and log = "[]"]
    by (simp add: example_defs init_defs)
  have r4: "build example_env (example_command ACTION_CREATE [(''type'', JStr ''item'')]) [] =
        (Inr (CreateItem (example_command ACTION_CREATE [(''type'', JStr ''item'')])), [])"
    using build_dispatch [where c = "example_command ACTION_CREATE [(''type'', JStr ''item'')]"
        and env = example_env and log = "[]"]
    by (simp add: example_defs init_defs)
  have r5: "build example_env (example_command ACTION_CREATE [(''type'', JStr ''property'')]) [] =
        (Inl ApiNotImplemented, [])"
    using build_dispatch [where c = "example_command ACTION_CREATE [(''type'', JStr ''property'')]"
        and env = example_env and log = "[]"]
    by (simp add: example_defs init_defs)
  have r6: "\<exists>h log'. build example_env (example_remove_statement ''P31'' ?e) [] = (Inr h, log')
              \<and> is_RemoveStatement h"
    using build_dispatch [where c = "example_remove_statement ''P31'' ?e" and env = example_env
        and log = "[]"]
    by (simp add: example_defs init_defs)
  have r7: "build example_env (example_add_text ''badge'') [] = (Inl ApiNotImplemented, [])"
    using build_dispatch [where c = "example_add_text ''badge''" and env = example_env
        and log = "[]" and w = "JStr ''badge''"]
    by (simp add: example_defs init_defs)
  have r8: "build example_env (example_command ACTION_CREATE [(''type'', JStr ''lexeme'')]) [] =
        (Inl ApiNotImplemented, [])"
    using build_dispatch [where c = "example_command ACTION_CREATE [(''type'', JStr ''lexeme'')]"
        and env = example_env and log = "[]" and w = "JStr ''lexeme''"]
    by (simp add: example_defs init_defs)
  have r9: "build example_env (example_command ACTION_REMOVE [(''what'', JStr ''label'')]) [] =
        (Inl ApiNotImplemented, [])"
    using build_dispatch [where c = "example_command ACTION_REMOVE [(''what'', JStr ''label'')]"
        and env = example_env and log = "[]" and w = "JStr ''label''"]
    by (simp add: example_defs init_defs)
  have r10: "build example_env (example_command (ACTION_OTHER 3) [(''what'', JStr ''statement'')]) [] =
        (Inl ApiNotImplemented, [])"
    using build_dispatch [where c = "example_command (ACTION_OTHER 3) [(''what'', JStr ''statement'')]"
        and env = example_env and log = "[]"]
    by (simp add: example_defs init_defs)
  from r1 r2 [of "''label''"] r2 [of "''description''"] r2 [of "''alias''"] r3 r4 r5 r6 r7 r8 r9 r10
  show ?thesis by simp
qed

section \<open>Properties of AddStatement\<close>

text \<open>
  C4. When the command has the fields the constructor of \<^verbatim>\<open>AddStatement\<close> reads, the
  constructor raises \<^verbatim>\<open>InvalidPropertyDataType(a, b, d)\<close> exactly when \<open>a\<close> is the property
  id, \<open>b\<close> is the type the value declares, \<open>d\<close> is the data type that the client returns
  for the property, \<open>b\<close> and \<open>d\<close> differ (Python's \<^verbatim>\<open>!=\<close>) and \<open>b\<close> is neither
  \<^verbatim>\<open>novalue\<close> nor \<^verbatim>\<open>somevalue\<close>. So a value that declares \<^verbatim>\<open>novalue\<close> or \<^verbatim>\<open>somevalue\<close>
  never raises it. The data type is looked up with one call of the client,
  \<^verbatim>\<open>get_property_data_type(property id)\<close>, whatever the declared type.
\<close>

theorem AddStatement_init_InvalidPropertyDataType:
  assumes "subscript (json c) ''entity'' = Inr entity"
      and "subscript entity ''id'' = Inr eid"
      and "subscript (json c) ''property'' = Inr pid"
      and "subscript (json c) ''value'' = Inr pv"
      and "subscript pv ''type'' = Inr dt"
  shows "(fst (AddStatement_init env c log) = Inl (InvalidPropertyDataType a b d) \<longleftrightarrow>
            a = pid \<and> b = dt
            \<and> has_token env (user (batch c))
            \<and> api env (user (batch c)) log (get_property_data_type pid) = Inr d
            \<and> \<not> py_eq d dt
            \<and> dt \<noteq> JStr ''novalue'' \<and> dt \<noteq> JStr ''somevalue'')
       \<and> (has_token env (user (batch c)) \<longrightarrow>
            snd (AddStatement_init env c log) = log @ [get_property_data_type pid])"
proof -
  from assms(1) obtain kvs where j: "json c = JObj kvs"
    by (auto simp add: subscript_def split: json_value.splits)
  show ?thesis
    using assms
    by (auto simp add: AddStatement_init_def verify_data_type_def client_def invoke_def
          get_def j Let_def split: sum.splits option.splits)
qed

theorem AddStatement_init_InvalidPropertyDataType_witness:
  "fst (AddStatement_init example_env
          (example_add_statement (JObj [(''type'', JStr ''string''), (''value'', JStr ''42'')])) [])
     = Inl (InvalidPropertyDataType (JStr ''P1082'') (JStr ''string'') (JStr ''quantity''))
   \<and> fst (AddStatement_init example_env
          (example_add_statement (JObj [(''type'', JStr ''somevalue''), (''value'', JStr ''somevalue'')])) [])
     \<noteq> Inl (InvalidPropertyDataType (JStr ''P1082'') (JStr ''somevalue'') (JStr ''quantity''))
   \<and> snd (AddStatement_init example_env
          (example_add_statement (JObj [(''type'', JStr ''somevalue''), (''value'', JStr ''somevalue'')])) [])
     = [get_property_data_type (JStr ''P1082'')]"
proof -
  note example_defs = example_env_def example_command_def example_add_statement_def
  let ?s = "JObj [(''type'', JStr ''string''), (''value'', JStr ''42'')]"
  let ?n = "JObj [(''type'', JStr ''somevalue''), (''value'', JStr ''somevalue'')]"
  let ?ent = "JObj [(''type'', JStr ''item''), (''id'', JStr ''Q1'')]"
  have f: "subscript (json (example_add_statement pv)) ''entity'' = Inr ?ent"
          "subscript ?ent ''id'' = Inr (JStr ''Q1'')"
          "subscript (json (example_add_statement pv)) ''property'' = Inr (JStr ''P1082'')"
          "subscript (json (example_add_statement pv)) ''value'' = Inr pv" for pv
    by (simp_all add: example_defs subscript_def)
  have ts: "subscript ?s ''type'' = Inr (JStr ''string'')"
    and tn: "subscript ?n ''type'' = Inr (JStr ''somevalue'')"
    by (simp_all add: subscript_def)
  from AddStatement_init_InvalidPropertyDataType [OF f ts, of example_env "[]"
      "JStr ''P1082''" "JStr ''string''" "JStr ''quantity''"]
  have a: "fst (AddStatement_init example_env (example_add_statement ?s) [])
     = Inl (InvalidPropertyDataType (JStr ''P1082'') (JStr ''string'') (JStr ''quantity''))"
    by (simp add: example_defs)
  from AddStatement_init_InvalidPropertyDataType [OF f tn, of example_env "[]"
      "JStr ''P1082''" "JStr ''somevalue''" "JStr ''quantity''"]
  have b: "fst (AddStatement_init example_env (example_add_statement ?n) [])
     \<noteq> Inl (InvalidPropertyDataType (JStr ''P1082'') (JStr ''somevalue'') (JStr ''quantity''))"
    and c: "snd (AddStatement_init example_env (example_add_statement ?n) [])
     = [get_property_data_type (JStr ''P1082'')]"
    by (simp_all add: example_defs)
  from a b c show ?thesis by simp
qed

text \<open>The loops of \<^verbatim>\<open>body\<close> and the relations that describe their results.\<close>

lemma fix_part_iff: "fix_part q = Inr x \<longleftrightarrow> translated_part q x"
  by (auto simp add: fix_part_def translated_part_def split: sum.splits)

lemma fix_parts_Cons:
  "fix_parts (q # qs) = Inr xs \<longleftrightarrow>
     (\<exists>y ys. xs = y # ys \<and> fix_part q = Inr y \<and> fix_parts qs = Inr ys)"
  by (auto split: sum.splits)

lemma fix_parts_iff: "fix_parts qs = Inr xs \<longleftrightarrow> list_all2 translated_part qs xs"
proof (induction qs arbitrary: xs)
  case Nil
  show ?case by auto
next
  case (Cons q qs)
  have "fix_parts (q # qs) = Inr xs \<longleftrightarrow>
          (\<exists>y ys. xs = y # ys \<and> translated_part q y \<and> list_all2 translated_part qs ys)"
    by (simp only: fix_parts_Cons fix_part_iff Cons.IH)
  then show ?case
    by (simp add: list_all2_Cons1)
qed

lemma fix_refs_Cons:
  "fix_refs (r # rs) = Inr xs \<longleftrightarrow>
     (\<exists>parts fixed ys. xs = JObj [(''parts'', JList fixed)] # ys \<and> py_iter r = Inr parts
        \<and> fix_parts parts = Inr fixed \<and> fix_refs rs = Inr ys)"
  by (auto split: sum.splits)

lemma fix_refs_iff: "fix_refs rs = Inr xs \<longleftrightarrow> list_all2 translated_reference rs xs"
proof (induction rs arbitrary: xs)
  case Nil
  show ?case by auto
next
  case (Cons r rs)
  have step: "fix_refs (r # rs) = Inr xs \<longleftrightarrow>
          (\<exists>parts fixed ys. xs = JObj [(''parts'', JList fixed)] # ys \<and> py_iter r = Inr parts
             \<and> list_all2 translated_part parts fixed \<and> list_all2 translated_reference rs ys)"
    by (simp only: fix_refs_Cons fix_parts_iff Cons.IH)
  have rel: "list_all2 translated_reference (r # rs) xs \<longleftrightarrow>
          (\<exists>parts fixed ys. xs = JObj [(''parts'', JList fixed)] # ys \<and> py_iter r = Inr parts
             \<and> list_all2 translated_part parts fixed \<and> list_all2 translated_reference rs ys)"
    unfolding list_all2_Cons1 translated_reference_def [of r] by blast
  show ?case
    by (simp only: step rel)
qed

lemma AddStatement_body_Inr:
  "AddStatement_body self = Inr b \<longleftrightarrow>
     (\<exists>v qs all_quali rs all_refs.
        parser_value_to_api_value (parser_value self) = Inr v
        \<and> py_iter (qualifiers self) = Inr qs \<and> fix_parts qs = Inr all_quali
        \<and> py_iter (references self) = Inr rs \<and> fix_refs rs = Inr all_refs
        \<and> b = JObj [(''statement'',
                 JObj [(''property'', JObj [(''id'', property_id self)]),
                       (''value'', v),
                       (''qualifiers'', JList all_quali),
                       (''references'', JList all_refs)])])"
  by (auto simp add: AddStatement_body_def split: sum.splits)

text \<open>
  C5. \<^verbatim>\<open>body()\<close> of an \<^verbatim>\<open>AddStatement\<close> returns \<open>b\<close> exactly when \<open>b\<close> is the dict
  \<^verbatim>\<open>{statement: {property: {id}, value, qualifiers, references}}\<close> with the property id of
  the command, the translation of its value, the list of its qualifiers, each translated
  to \<^verbatim>\<open>{property: {id}, value}\<close>, in their order, and the list of its references, each
  translated to \<^verbatim>\<open>{parts: [...]}\<close> with its parts translated in their order, the
  references in their order. (\<open>list_all2\<close> relates two lists of the same length
  position by position.)
\<close>

theorem AddStatement_body_shape:
  "body env (AddStatement c eid pid pv dt refs quals) = Inr b \<longleftrightarrow>
     (\<exists>v qs all_quali rs all_refs.
        parser_value_to_api_value pv = Inr v
        \<and> py_iter quals = Inr qs \<and> list_all2 translated_part qs all_quali
        \<and> py_iter refs = Inr rs \<and> list_all2 translated_reference rs all_refs
        \<and> b = JObj [(''statement'',
                 JObj [(''property'', JObj [(''id'', pid)]),
                       (''value'', v),
                       (''qualifiers'', JList all_quali),
                       (''references'', JList all_refs)])])"
  by (simp add: body_def AddStatement_body_Inr fix_parts_iff fix_refs_iff)

theorem AddStatement_body_shape_example:
  "body example_env
     (AddStatement (example_add_statement (JObj [(''type'', JStr ''quantity''), (''value'', JStr ''+42'')]))
        (JStr ''Q1'') (JStr ''P1082'')
        (JObj [(''type'', JStr ''quantity''), (''value'', JStr ''+42'')]) (JStr ''quantity'')
        (JList [JList [JObj [(''property'', JStr ''P854''),
                             (''value'', JObj [(''type'', JStr ''string''),
                                               (''value'', JStr ''census'')])],
                       JObj [(''property'', JStr ''P813''),
                             (''value'', JObj [(''type'', JStr ''novalue'')])]],
                JList []])
        (JList [JObj [(''property'', JStr ''P585''),
                      (''value'', JObj [(''type'', JStr ''somevalue''),
                                        (''value'', JStr ''somevalue'')])],
                JObj [(''property'', JStr ''P459''),
                      (''value'', JObj [(''type'', JStr ''wikibase-entityid''),
                                        (''value'', JStr ''Q39825'')])]]))
   = Inr (JObj [(''statement'',
            JObj [(''property'', JObj [(''id'', JStr ''P1082'')]),
                  (''value'', JObj [(''type'', JStr ''value''), (''content'', JStr ''+42'')]),
                  (''qualifiers'',
                     JList [JObj [(''property'', JObj [(''id'', JStr ''P585'')]),
                                  (''value'', JObj [(''type'', JStr ''somevalue'')])],
                            JObj [(''property'', JObj [(''id'', JStr ''P459'')]),
                                  (''value'', JObj [(''type'', JStr ''value''),
                                                    (''content'', JStr ''Q39825'')])]]),
                  (''references'',
                     JList [JObj [(''parts'',
                              JList [JObj [(''property'', JObj [(''id'', JStr ''P854'')]),
                                           (''value'', JObj [(''type'', JStr ''value''),
                                                             (''content'', JStr ''census'')])],
                                     JObj [(''property'', JObj [(''id'', JStr ''P813'')]),
                                           (''value'', JObj [(''type'', JStr ''novalue'')])]])],
                            JObj [(''parts'', JList [])]])])])"
  by (subst AddStatement_body_shape)
     (simp add: translated_part_def translated_reference_def parser_value_to_api_value_def
        subscript_def py_iter_def)

section \<open>Properties of AddLabelDescriptionOrAlias\<close>

text \<open>
  C6. \<^verbatim>\<open>body()\<close> of an \<^verbatim>\<open>AddLabelDescriptionOrAlias\<close> is the dict with the one JSON-patch
  operation \<^verbatim>\<open>{op: "add", path: p, value: v}\<close>, where \<open>v\<close> is the literal value and \<open>p\<close> is
  \<^verbatim>\<open>/<language>/0\<close> for the kind alias and \<^verbatim>\<open>/<language>\<close> for any other kind (a language
  that is a string is inserted as it is). With a client at hand, \<^verbatim>\<open>send\<close> makes the call
  \<^verbatim>\<open>add_label\<close>, \<^verbatim>\<open>add_description\<close> or \<^verbatim>\<open>add_alias\<close> according to the kind, with the entity
  id and the full body, and for any other kind raises a \<^verbatim>\<open>ValueError\<close> and makes no call.
\<close>

theorem AddLabelDescriptionOrAlias_body_and_send:
  assumes "self = AddLabelDescriptionOrAlias c w eid lang v"
  shows "body env self =
           Inr (JObj [(''patch'',
                  JList [JObj [(''op'', JStr ''add''),
                               (''path'', JStr (if w = JStr ''alias''
                                                then ''/'' @ format_field env lang @ ''/0''
                                                else ''/'' @ format_field env lang)),
                               (''value'', v)]])])
       \<and> format_field env (JStr l) = l
       \<and> (has_token env (user (batch c)) \<and> full_body env self = Inr fb \<longrightarrow>
            send env self log =
              (if w = JStr ''label'' then invoke env (user (batch c)) (add_label eid fb) log
               else if w = JStr ''description''
               then invoke env (user (batch c)) (add_description eid fb) log
               else if w = JStr ''alias'' then invoke env (user (batch c)) (add_alias eid fb) log
               else (Inl (ValueError ([CHR 0x27] @ ''what'' @ [CHR 0x27] @
                       '' is not label, description or alias.'')), log)))"
  using assms
  by (simp add: body_def AddLabelDescriptionOrAlias_body_def format_field_def send_def
        AddLabelDescriptionOrAlias_send_def client_def)

theorem AddLabelDescriptionOrAlias_body_and_send_witness:
  "body example_env
     (AddLabelDescriptionOrAlias (example_add_text ''alias'') (JStr ''alias'') (JStr ''Q1'')
        (JStr ''en'') (JStr ''Earth''))
     = Inr (JObj [(''patch'',
              JList [JObj [(''op'', JStr ''add''), (''path'', JStr ''/en/0''),
                           (''value'', JStr ''Earth'')]])])
   \<and> body example_env
     (AddLabelDescriptionOrAlias (example_add_text ''label'') (JStr ''label'') (JStr ''Q1'')
        (JStr ''en'') (JStr ''Earth''))
     = Inr (JObj [(''patch'',
              JList [JObj [(''op'', JStr ''add''), (''path'', JStr ''/en''),
                           (''value'', JStr ''Earth'')]])])
   \<and> send example_env
     (AddLabelDescriptionOrAlias (example_add_text ''label'') (JStr ''label'') (JStr ''Q1'')
        (JStr ''en'') (JStr ''Earth'')) []
     = (Inr (JObj []),
        [add_label (JStr ''Q1'')
           (JObj [(''patch'',
              JList [JObj [(''op'', JStr ''add''), (''path'', JStr ''/en''),
                           (''value'', JStr ''Earth'')]]),
              (''comment'', JStr []), (''bot'', JBool False)])])
   \<and> send example_env
     (AddLabelDescriptionOrAlias (example_add_text ''badge'') (JStr ''badge'') (JStr ''Q1'')
        (JStr ''en'') (JStr ''Earth'')) []
     = (Inl (ValueError ([CHR 0x27] @ ''what'' @ [CHR 0x27] @
               '' is not label, description or alias.'')), [])"
proof -
  note example_defs = example_env_def example_command_def example_add_text_def
  let ?h = "\<lambda>w. AddLabelDescriptionOrAlias (example_add_text w) (JStr w) (JStr ''Q1'')
                   (JStr ''en'') (JStr ''Earth'')"
  let ?fb = "\<lambda>p. JObj [(''patch'',
              JList [JObj [(''op'', JStr ''add''), (''path'', JStr p),
                           (''value'', JStr ''Earth'')]]),
              (''comment'', JStr []), (''bot'', JBool False)]"
  have fb: "full_body example_env (?h w) = Inr (?fb (if w = ''alias'' then ''/en/0'' else ''/en''))"
    for w
    by (simp add: full_body_def body_def AddLabelDescriptionOrAlias_body_def format_field_def
          comment_def get_def example_defs)
  have tok: "has_token example_env (user (batch (example_add_text w)))" for w
    by (simp add: example_defs)
  have a: "body example_env (?h ''alias'') =
             Inr (JObj [(''patch'',
                    JList [JObj [(''op'', JStr ''add''), (''path'', JStr ''/en/0''),
                                 (''value'', JStr ''Earth'')]])])"
    using AddLabelDescriptionOrAlias_body_and_send [OF refl, of example_env
        "example_add_text ''alias''" "JStr ''alias''" "JStr ''Q1''" "JStr ''en''" "JStr ''Earth''"
        "''en''"]
    by simp
  have b: "body example_env (?h ''label'') =
             Inr (JObj [(''patch'',
                    JList [JObj [(''op'', JStr ''add''), (''path'', JStr ''/en''),
                                 (''value'', JStr ''Earth'')]])])"
    using AddLabelDescriptionOrAlias_body_and_send [OF refl, of example_env
        "example_add_text ''label''" "JStr ''label''" "JStr ''Q1''" "JStr ''en''" "JStr ''Earth''"
        "''en''"]
    by simp
  have c: "send example_env (?h ''label'') [] =
             (Inr (JObj []), [add_label (JStr ''Q1'') (?fb ''/en'')])"
    using AddLabelDescriptionOrAlias_body_and_send [OF refl, of example_env
        "example_add_text ''label''" "JStr ''label''" "JStr ''Q1''" "JStr ''en''" "JStr ''Earth''"
        "''en''" "?fb ''/en''" "[]"] fb [of "''label''"] tok [of "''label''"]
    by (simp add: invoke_def example_env_def example_add_text_def example_command_def)
  have d: "send example_env (?h ''badge'') [] =
             (Inl (ValueError ([CHR 0x27] @ ''what'' @ [CHR 0x27] @
               '' is not label, description or alias.'')), [])"
    using AddLabelDescriptionOrAlias_body_and_send [OF refl, of example_env
        "example_add_text ''badge''" "JStr ''badge''" "JStr ''Q1''" "JStr ''en''" "JStr ''Earth''"
        "''en''" "?fb ''/en''" "[]"] fb [of "''badge''"] tok [of "''badge''"]
    by simp
  from a b c d show ?thesis by simp
qed


section \<open>Properties of the request body\<close>

lemma setitem_fresh: "k \<notin> fst ` set kvs \<Longrightarrow> setitem kvs k v = kvs @ [(k, v)]"
  by (induction kvs) auto

lemma body_fields:
  "\<exists>items. b = JObj items \<and> ''comment'' \<notin> fst ` set items \<and> ''bot'' \<notin> fst ` set items"
  if "body env self = Inr b"
proof (cases self)
  case (AddStatement c eid pid pv dt refs quals)
  with that show ?thesis
    by (auto simp add: body_def AddStatement_body_def split: sum.splits)
next
  case (AddLabelDescriptionOrAlias c w eid lang v)
  with that show ?thesis
    by (auto simp add: body_def AddLabelDescriptionOrAlias_body_def Let_def)
next
  case (AddSitelink c w eid s v)
  with that show ?thesis
    by (auto simp add: body_def AddSitelink_body_def)
next
  case (CreateItem c)
  with that show ?thesis
    by (auto simp add: body_def CreateItem_body_def)
next
  case (RemoveStatement c eid pid pv av ids)
  with that show ?thesis
    by (auto simp add: body_def RemoveStatement_body_def)
qed

lemma full_body_append:
  assumes "body env self = Inr (JObj items)"
      and "''comment'' \<notin> fst ` set items" and "''bot'' \<notin> fst ` set items"
      and "json (command self) = JObj kvs"
  shows "full_body env self =
           Inr (JObj (items @ [(''comment'', case map_of kvs ''summary'' of
                                                 None \<Rightarrow> JStr [] | Some s \<Rightarrow> s),
                                (''bot'', JBool False)]))"
  using assms
  by (auto simp add: full_body_def comment_def get_def setitem_fresh split: option.splits)

lemma delete_each_log:
  "\<exists>m. snd (delete_each env cl fb ids rs log) =
         log @ map (\<lambda>i. delete_statement i fb) (take m ids)"
proof (induction ids arbitrary: rs log)
  case Nil
  show ?case by simp
next
  case (Cons i ids)
  show ?case
  proof (cases "api env cl log (delete_statement i fb)")
    case (Inl msg)
    then have "snd (delete_each env cl fb (i # ids) rs log) =
                 log @ map (\<lambda>i. delete_statement i fb) (take 1 (i # ids))"
      by (simp add: invoke_def)
    then show ?thesis by blast
  next
    case (Inr res)
    from Cons.IH [of "rs @ [res]" "log @ [delete_statement i fb]"]
    obtain m where "snd (delete_each env cl fb ids (rs @ [res]) (log @ [delete_statement i fb])) =
        (log @ [delete_statement i fb]) @ map (\<lambda>i. delete_statement i fb) (take m ids)"
      by blast
    with Inr have "snd (delete_each env cl fb (i # ids) rs log) =
                 log @ map (\<lambda>i. delete_statement i fb) (take (Suc m) (i # ids))"
      by (simp add: invoke_def)
    then show ?thesis by blast
  qed
qed

lemma snd_invoke: "snd (invoke env cl x log) = log @ [x]"
  by (simp add: invoke_def split: sum.splits)

lemma RemoveStatement_send_log:
  assumes "full_body env self = Inr fb" and "client env self = Inr cl"
  shows "snd (RemoveStatement_send env self log) =
           snd (delete_each env cl fb (ids_to_delete self) [] log)"
  using assms by (simp add: RemoveStatement_send_def split: prod.splits sum.splits)

lemma send_no_client:
  assumes "client env self = Inl e"
  shows "snd (send env self log) = log"
proof (cases "full_body env self")
  case (Inl e')
  then show ?thesis
    by (cases self)
       (simp_all add: send_def AddStatement_send_def AddLabelDescriptionOrAlias_send_def
          AddSitelink_send_def CreateItem_send_def RemoveStatement_send_def)
next
  case (Inr fb)
  with assms show ?thesis
    by (cases self)
       (simp_all add: send_def AddStatement_send_def AddLabelDescriptionOrAlias_send_def
          AddSitelink_send_def CreateItem_send_def RemoveStatement_send_def)
qed

lemma send_calls:
  assumes "full_body env self = Inr fb"
  shows "\<exists>calls. snd (send env self log) = log @ calls \<and> (\<forall>x \<in> set calls. request_body x = Some fb)"
proof (cases "client env self")
  case (Inl e)
  then have "snd (send env self log) = log @ []"
    by (simp add: send_no_client)
  then show ?thesis by fastforce
next
  case (Inr cl)
  show ?thesis
  proof (cases self)
    case (RemoveStatement c eid pid pv av ids)
    from delete_each_log [of env cl fb ids "[]" log]
    obtain m where "snd (delete_each env cl fb ids [] log) =
         log @ map (\<lambda>i. delete_statement i fb) (take m ids)"
      by blast
    with RemoveStatement_send_log [OF assms Inr, of log] RemoveStatement
    have "snd (send env self log) = log @ map (\<lambda>i. delete_statement i fb) (take m ids)"
      by (simp add: send_def)
    moreover have "\<forall>x \<in> set (map (\<lambda>i. delete_statement i fb) (take m ids)). request_body x = Some fb"
      by (simp add: request_body_def)
    ultimately show ?thesis by blast
  next
    case (AddStatement c eid pid pv dt refs quals)
    with assms Inr have "snd (send env self log) = log @ [add_statement eid fb]"
      by (simp add: send_def AddStatement_send_def snd_invoke)
    moreover have "request_body (add_statement eid fb) = Some fb"
      by (simp add: request_body_def)
    ultimately show ?thesis by simp
  next
    case (AddLabelDescriptionOrAlias c w eid lang v)
    with assms Inr have "snd (send env self log) =
        log @ (if w = JStr ''label'' then [add_label eid fb]
               else if w = JStr ''description'' then [add_description eid fb]
               else if w = JStr ''alias'' then [add_alias eid fb] else [])"
      by (simp add: send_def AddLabelDescriptionOrAlias_send_def snd_invoke)
    moreover have "\<forall>x \<in> set (if w = JStr ''label'' then [add_label eid fb]
               else if w = JStr ''description'' then [add_description eid fb]
               else if w = JStr ''alias'' then [add_alias eid fb] else []).
               request_body x = Some fb"
      by (simp add: request_body_def)
    ultimately show ?thesis by blast
  next
    case (AddSitelink c w eid s v)
    with assms Inr have "snd (send env self log) = log @ [add_sitelink eid fb]"
      by (simp add: send_def AddSitelink_send_def snd_invoke)
    moreover have "request_body (add_sitelink eid fb) = Some fb"
      by (simp add: request_body_def)
    ultimately show ?thesis by simp
  next
    case (CreateItem c)
    with assms Inr have "snd (send env self log) = log @ [create_item fb]"
      by (simp add: send_def CreateItem_send_def snd_invoke)
    moreover have "request_body (create_item fb) = Some fb"
      by (simp add: request_body_def)
    ultimately show ?thesis by simp
  qed
qed

text \<open>
  C9. For every handler whose \<^verbatim>\<open>body()\<close> returns and whose command has a dict as payload,
  \<^verbatim>\<open>body()\<close> is a dict with neither a \<^verbatim>\<open>comment\<close> nor a \<^verbatim>\<open>bot\<close> field, the full body is
  that dict followed by \<^verbatim>\<open>comment\<close>, which holds the summary of the command or the empty
  string when it has none, and by \<^verbatim>\<open>bot\<close>, which holds \<^verbatim>\<open>False\<close>; and every call that
  \<^verbatim>\<open>send\<close> makes carries this full body.
\<close>

theorem full_body_adds_comment_and_bot:
  assumes "body env self = Inr b" and "json (command self) = JObj kvs"
  shows "\<exists>items fb.
           b = JObj items
           \<and> ''comment'' \<notin> fst ` set items \<and> ''bot'' \<notin> fst ` set items
           \<and> fb = JObj (items @ [(''comment'', case map_of kvs ''summary'' of
                                                   None \<Rightarrow> JStr [] | Some s \<Rightarrow> s),
                                  (''bot'', JBool False)])
           \<and> full_body env self = Inr fb
           \<and> (\<exists>calls. snd (send env self log) = log @ calls
                 \<and> (\<forall>x \<in> set calls. request_body x = Some fb))"
proof -
  from body_fields [OF assms(1)] obtain items
    where f: "b = JObj items" "''comment'' \<notin> fst ` set items" "''bot'' \<notin> fst ` set items"
    by blast
  let ?fb = "JObj (items @ [(''comment'', case map_of kvs ''summary'' of
                                             None \<Rightarrow> JStr [] | Some s \<Rightarrow> s),
                            (''bot'', JBool False)])"
  from assms f have fb: "full_body env self = Inr ?fb"
    by (simp add: full_body_append)
  from send_calls [OF fb, of log] obtain calls
    where c: "snd (send env self log) = log @ calls" "\<forall>x \<in> set calls. request_body x = Some ?fb"
    by blast
  from c have sent: "\<exists>calls. snd (send env self log) = log @ calls
                 \<and> (\<forall>x \<in> set calls. request_body x = Some ?fb)"
    by (intro exI [of _ calls] conjI)
  show ?thesis
    by (rule exI [of _ items], rule exI [of _ ?fb]) (intro conjI f fb sent refl)
qed

theorem full_body_adds_comment_and_bot_witness:
  "full_body example_env
     (CreateItem (example_command ACTION_CREATE
        [(''type'', JStr ''item''), (''summary'', JStr ''new item'')]))
     = Inr (JObj [(''item'', JObj []), (''comment'', JStr ''new item''), (''bot'', JBool False)])
   \<and> full_body example_env
     (CreateItem (example_command ACTION_CREATE [(''type'', JStr ''item'')]))
     = Inr (JObj [(''item'', JObj []), (''comment'', JStr []), (''bot'', JBool False)])
   \<and> snd (send example_env
            (CreateItem (example_command ACTION_CREATE [(''type'', JStr ''item'')])) [])
     = [create_item (JObj [(''item'', JObj []), (''comment'', JStr []), (''bot'', JBool False)])]"
proof -
  let ?c1 = "example_command ACTION_CREATE [(''type'', JStr ''item''), (''summary'', JStr ''new item'')]"
  let ?c2 = "example_command ACTION_CREATE [(''type'', JStr ''item'')]"
  have b: "body example_env (CreateItem c) = Inr (JObj [(''item'', JObj [])])" for c
    by (simp add: body_def CreateItem_body_def)
  have j1: "json (command (CreateItem ?c1)) =
              JObj [(''type'', JStr ''item''), (''summary'', JStr ''new item'')]"
    and j2: "json (command (CreateItem ?c2)) = JObj [(''type'', JStr ''item'')]"
    by (simp_all add: example_command_def)
  from full_body_adds_comment_and_bot [OF b j1, of "[]"]
  have a1: "full_body example_env (CreateItem ?c1) =
     Inr (JObj [(''item'', JObj []), (''comment'', JStr ''new item''), (''bot'', JBool False)])"
    by auto
  from full_body_adds_comment_and_bot [OF b j2, of "[]"]
  have a2: "full_body example_env (CreateItem ?c2) =
     Inr (JObj [(''item'', JObj []), (''comment'', JStr []), (''bot'', JBool False)])
     \<and> snd (send example_env (CreateItem ?c2) []) =
         [create_item (JObj [(''item'', JObj []), (''comment'', JStr []), (''bot'', JBool False)])]"
    by (auto simp add: send_def CreateItem_send_def client_def invoke_def example_env_def
          example_command_def)
  from a1 a2 show ?thesis by simp
qed

section \<open>Properties of RemoveStatement\<close>

text \<open>
  The two loops, and the constructor step by step: what it returns once the fields of
  the command, the client and the statements of the property are at hand, and what is
  known when it has returned an object.
\<close>

lemma py_iter_len: "py_iter x = Inr xs \<Longrightarrow> py_len x = Inr (length xs)"
  by (auto simp add: py_iter_def py_len_def split: json_value.splits)

lemma matching_ids_acc:
  "matching_ids av sts acc = Inr ids \<Longrightarrow>
     \<exists>new. ids = acc @ new
       \<and> list_all2 (\<lambda>s i. subscript s ''id'' = Inr i) (filter (has_value av) sts) new"
proof (induction sts arbitrary: acc)
  case Nil
  then show ?case by simp
next
  case (Cons s sts)
  from Cons.prems obtain i v where
    i: "subscript s ''id'' = Inr i" and v: "subscript s ''value'' = Inr v"
    by (auto split: sum.splits)
  show ?case
  proof (cases "py_eq v av")
    case True
    with Cons.prems i v have "matching_ids av sts (acc @ [i]) = Inr ids"
      by simp
    from Cons.IH [OF this] obtain new where
      "ids = (acc @ [i]) @ new"
      "list_all2 (\<lambda>s i. subscript s ''id'' = Inr i) (filter (has_value av) sts) new"
      by blast
    with True i v have "ids = acc @ (i # new)
       \<and> list_all2 (\<lambda>s i. subscript s ''id'' = Inr i) (filter (has_value av) (s # sts)) (i # new)"
      by (simp add: has_value_def)
    then show ?thesis by blast
  next
    case False
    with Cons.prems i v have "matching_ids av sts acc = Inr ids"
      by simp
    from Cons.IH [OF this] obtain new where
      "ids = acc @ new"
      "list_all2 (\<lambda>s i. subscript s ''id'' = Inr i) (filter (has_value av) sts) new"
      by blast
    with False i v have "ids = acc @ new
       \<and> list_all2 (\<lambda>s i. subscript s ''id'' = Inr i) (filter (has_value av) (s # sts)) new"
      by (simp add: has_value_def)
    then show ?thesis by blast
  qed
qed

lemma matching_ids_none:
  "list_all (\<lambda>s. \<exists>i v. subscript s ''id'' = Inr i \<and> subscript s ''value'' = Inr v
                \<and> \<not> py_eq v av) sts
   \<Longrightarrow> matching_ids av sts acc = Inr acc"
  by (induction sts) auto

lemma delete_each_success:
  assumes "length rs = length ids"
      and "\<forall>k < length ids.
             api env cl (log @ map (\<lambda>i. delete_statement i fb) (take k ids))
               (delete_statement (ids ! k) fb) = Inr (rs ! k)"
  shows "delete_each env cl fb ids acc log =
           (Inr (acc @ rs), log @ map (\<lambda>i. delete_statement i fb) ids)"
  using assms
proof (induction ids arbitrary: rs acc log)
  case Nil
  then show ?case by simp
next
  case (Cons i ids)
  from Cons.prems(1) obtain r rs' where rs: "rs = r # rs'" and len: "length rs' = length ids"
    by (cases rs) auto
  from Cons.prems(2) [rule_format, of 0] rs
  have first: "api env cl log (delete_statement i fb) = Inr r"
    by simp
  have rest: "\<forall>k < length ids.
             api env cl ((log @ [delete_statement i fb]) @ map (\<lambda>i. delete_statement i fb) (take k ids))
               (delete_statement (ids ! k) fb) = Inr (rs' ! k)"
  proof (intro allI impI)
    fix k assume "k < length ids"
    with Cons.prems(2) [rule_format, of "Suc k"] rs
    show "api env cl ((log @ [delete_statement i fb]) @ map (\<lambda>i. delete_statement i fb) (take k ids))
               (delete_statement (ids ! k) fb) = Inr (rs' ! k)"
      by simp
  qed
  from Cons.IH [OF len rest, of "acc @ [r]"] first rs
  show ?case
    by (simp add: invoke_def)
qed

lemma RemoveStatement_init_steps:
  assumes "subscript (json c) ''entity'' = Inr entity"
      and "subscript entity ''id'' = Inr eid"
      and "subscript (json c) ''property'' = Inr pid"
      and "subscript (json c) ''value'' = Inr pv"
      and "parser_value_to_api_value pv = Inr av"
      and "has_token env (user (batch c))"
      and "api env (user (batch c)) log (get_statements eid) = Inr all_statements"
      and "get all_statements pid (JList []) = Inr our"
      and "py_iter our = Inr sts"
      and "matching_ids av sts [] = Inr ids"
  shows "RemoveStatement_init env c log =
           (if sts = [] then Inl (NoStatementsForThatProperty eid pid)
            else if ids = []
            then (case subscript pv ''value'' of
                    Inl e \<Rightarrow> Inl e
                  | Inr x \<Rightarrow> Inl (NoStatementsWithThatValue eid pid x))
            else Inr (RemoveStatement c eid pid pv av ids),
            log @ [get_statements eid])"
  using assms py_iter_len [OF assms(9)]
  by (simp add: RemoveStatement_init_def load_ids_to_delete_def
        get_statements_for_our_property_def client_def invoke_def split: sum.splits)


lemma subscript_Inr_JObj: "subscript d k = Inr v \<Longrightarrow> \<exists>kvs. d = JObj kvs"
  by (auto simp add: subscript_def split: json_value.splits)

lemma RemoveStatement_init_Inr:
  assumes "RemoveStatement_init env c log0 = (Inr self, log1)"
  shows "\<exists>entity eid pid pv av all_statements our sts ids.
           subscript (json c) ''entity'' = Inr entity
           \<and> subscript entity ''id'' = Inr eid
           \<and> subscript (json c) ''property'' = Inr pid
           \<and> subscript (json c) ''value'' = Inr pv
           \<and> parser_value_to_api_value pv = Inr av
           \<and> has_token env (user (batch c))
           \<and> api env (user (batch c)) log0 (get_statements eid) = Inr all_statements
           \<and> get all_statements pid (JList []) = Inr our
           \<and> py_iter our = Inr sts
           \<and> matching_ids av sts [] = Inr ids
           \<and> ids \<noteq> []
           \<and> self = RemoveStatement c eid pid pv av ids
           \<and> log1 = log0 @ [get_statements eid]"
  using assms
  by (auto simp add: RemoveStatement_init_def load_ids_to_delete_def
        get_statements_for_our_property_def client_def invoke_def Let_def
        split: sum.splits prod.splits if_splits)

text \<open>
  C8. When the constructor of \<^verbatim>\<open>RemoveStatement\<close> has returned an object, its
  \<^verbatim>\<open>ids_to_delete\<close> are the ids of those statements of the property that have the
  translated target value, in the order in which the client listed them. If the calls
  \<^verbatim>\<open>delete_statement(id, full body)\<close>, made one after the other for these ids in this
  order, are answered by \<open>rs ! 0\<close>, \<open>rs ! 1\<close>, ..., then \<^verbatim>\<open>send\<close> makes exactly these calls,
  one for each id and in this order, and returns the list \<open>rs\<close>.
\<close>

theorem RemoveStatement_send_deletes_each:
  assumes "RemoveStatement_init env c log0 = (Inr self, log1)"
  shows "\<exists>all_statements our sts fb.
           api env (user (batch c)) log0 (get_statements (entity_id self)) = Inr all_statements
           \<and> get all_statements (property_id self) (JList []) = Inr our
           \<and> py_iter our = Inr sts
           \<and> list_all2 (\<lambda>s i. subscript s ''id'' = Inr i)
                 (filter (has_value (api_value self)) sts) (ids_to_delete self)
           \<and> full_body env self = Inr fb
           \<and> (\<forall>rs. length rs = length (ids_to_delete self)
                  \<and> (\<forall>k < length rs.
                        api env (user (batch c))
                          (log @ map (\<lambda>i. delete_statement i fb) (take k (ids_to_delete self)))
                          (delete_statement (ids_to_delete self ! k) fb) = Inr (rs ! k))
                \<longrightarrow> send env self log =
                      (Inr (JList rs),
                       log @ map (\<lambda>i. delete_statement i fb) (ids_to_delete self)))"
proof -
  from RemoveStatement_init_Inr [OF assms]
  obtain entity eid pid pv av all_statements our sts ids where
    ent: "subscript (json c) ''entity'' = Inr entity"
    and tok: "has_token env (user (batch c))"
    and api: "api env (user (batch c)) log0 (get_statements eid) = Inr all_statements"
    and our: "get all_statements pid (JList []) = Inr our"
    and sts: "py_iter our = Inr sts"
    and ids: "matching_ids av sts [] = Inr ids"
    and self: "self = RemoveStatement c eid pid pv av ids"
    by blast
  from matching_ids_acc [OF ids]
  have order: "list_all2 (\<lambda>s i. subscript s ''id'' = Inr i) (filter (has_value av) sts) ids"
    by simp
  from subscript_Inr_JObj [OF ent] obtain kvs where j: "json c = JObj kvs"
    by blast
  let ?fb = "JObj [(''comment'', case map_of kvs ''summary'' of None \<Rightarrow> JStr [] | Some s \<Rightarrow> s),
                   (''bot'', JBool False)]"
  have fb: "full_body env self = Inr ?fb"
    using full_body_append [of env self "[]" kvs] self j
    by (simp add: body_def RemoveStatement_body_def)
  have cl: "client env self = Inr (user (batch c))"
    using tok self by (simp add: client_def)
  have sent: "send env self log =
               (Inr (JList rs), log @ map (\<lambda>i. delete_statement i ?fb) (ids_to_delete self))"
    if "length rs = length (ids_to_delete self)
        \<and> (\<forall>k < length rs.
              api env (user (batch c))
                (log @ map (\<lambda>i. delete_statement i ?fb) (take k (ids_to_delete self)))
                (delete_statement (ids_to_delete self ! k) ?fb) = Inr (rs ! k))" for rs
  proof -
    from that self have len: "length rs = length ids"
      and each: "\<forall>k < length ids.
              api env (user (batch c)) (log @ map (\<lambda>i. delete_statement i ?fb) (take k ids))
                (delete_statement (ids ! k) ?fb) = Inr (rs ! k)"
      by simp_all
    from delete_each_success [OF len each, of "[]"] fb cl self
    show ?thesis
      by (simp add: send_def RemoveStatement_send_def)
  qed
  have "api env (user (batch c)) log0 (get_statements (entity_id self)) = Inr all_statements"
       "get all_statements (property_id self) (JList []) = Inr our"
       "list_all2 (\<lambda>s i. subscript s ''id'' = Inr i)
          (filter (has_value (api_value self)) sts) (ids_to_delete self)"
    using api our order self by simp_all
  with sts fb sent show ?thesis
    by (intro exI [of _ all_statements] exI [of _ our] exI [of _ sts] exI [of _ ?fb] conjI allI impI)
qed

theorem RemoveStatement_send_deletes_each_witness:
  "send example_env
     (RemoveStatement
        (example_remove_statement ''P31''
           (JObj [(''type'', JStr ''wikibase-entityid''), (''value'', JStr ''Q5'')]))
        (JStr ''Q1'') (JStr ''P31'')
        (JObj [(''type'', JStr ''wikibase-entityid''), (''value'', JStr ''Q5'')])
        (JObj [(''type'', JStr ''value''), (''content'', JStr ''Q5'')])
        [JStr ''Q1$a'', JStr ''Q1$c''])
     [get_statements (JStr ''Q1'')]
   = (Inr (JList [JObj [(''deleted'', JStr ''Q1$a'')], JObj [(''deleted'', JStr ''Q1$c'')]]),
      [get_statements (JStr ''Q1''),
       delete_statement (JStr ''Q1$a'') (JObj [(''comment'', JStr []), (''bot'', JBool False)]),
       delete_statement (JStr ''Q1$c'') (JObj [(''comment'', JStr []), (''bot'', JBool False)])])"
proof -
  note example_defs = example_env_def example_command_def example_remove_statement_def
  note init_defs =
    RemoveStatement_init_def load_ids_to_delete_def
    get_statements_for_our_property_def client_def invoke_def parser_value_to_api_value_def
    subscript_def get_def py_len_def py_iter_def Let_def
  let ?pv = "JObj [(''type'', JStr ''wikibase-entityid''), (''value'', JStr ''Q5'')]"
  let ?c = "example_remove_statement ''P31'' ?pv"
  let ?h = "RemoveStatement ?c (JStr ''Q1'') (JStr ''P31'') ?pv
              (JObj [(''type'', JStr ''value''), (''content'', JStr ''Q5'')])
              [JStr ''Q1$a'', JStr ''Q1$c'']"
  let ?fb = "JObj [(''comment'', JStr []), (''bot'', JBool False)]"
  let ?rs = "[JObj [(''deleted'', JStr ''Q1$a'')], JObj [(''deleted'', JStr ''Q1$c'')]]"
  have init: "RemoveStatement_init example_env ?c [] = (Inr ?h, [get_statements (JStr ''Q1'')])"
    by (simp add: example_defs init_defs)
  from RemoveStatement_send_deletes_each [OF init, of "[get_statements (JStr ''Q1'')]"]
  obtain fb where fb: "full_body example_env ?h = Inr fb"
    and sent: "\<forall>rs. length rs = length (ids_to_delete ?h)
                  \<and> (\<forall>k < length rs.
                        api example_env (user (batch ?c))
                          ([get_statements (JStr ''Q1'')]
                             @ map (\<lambda>i. delete_statement i fb) (take k (ids_to_delete ?h)))
                          (delete_statement (ids_to_delete ?h ! k) fb) = Inr (rs ! k))
                \<longrightarrow> send example_env ?h [get_statements (JStr ''Q1'')] =
                      (Inr (JList rs),
                       [get_statements (JStr ''Q1'')]
                         @ map (\<lambda>i. delete_statement i fb) (ids_to_delete ?h))"
    by blast
  from fb have "fb = ?fb"
    by (simp add: full_body_def body_def RemoveStatement_body_def comment_def get_def
          example_defs)
  with sent [rule_format, of ?rs] show ?thesis
    by (simp add: example_env_def All_less_Suc)
qed

text \<open>
  C7. The constructor of \<^verbatim>\<open>RemoveStatement\<close> is to raise
  \<^verbatim>\<open>NoStatementsWithThatValue\<close> when the property has statements and none of them has the
  translated target value. On the target \<^verbatim>\<open>{"type": "somevalue"}\<close>, which the value
  translator accepts and translates to itself, and the three statements of the example,
  none of which has this value, the constructor raises \<^verbatim>\<open>KeyError('value')\<close>: the
  arguments of the exception read the field \<^verbatim>\<open>value\<close> of the target, which it does not
  have.
\<close>

theorem RemoveStatement_init_bare_somevalue:
  "parser_value_to_api_value (JObj [(''type'', JStr ''somevalue'')])
     = Inr (JObj [(''type'', JStr ''somevalue'')])
   \<and> (\<exists>all_statements our sts.
         api example_env ''alice'' [] (get_statements (JStr ''Q1'')) = Inr all_statements
         \<and> get all_statements (JStr ''P31'') (JList []) = Inr our
         \<and> py_iter our = Inr sts
         \<and> length sts = 3
         \<and> filter (has_value (JObj [(''type'', JStr ''somevalue'')])) sts = [])
   \<and> RemoveStatement_init example_env
         (example_remove_statement ''P31'' (JObj [(''type'', JStr ''somevalue'')])) []
     = (Inl (KeyError ''value''), [get_statements (JStr ''Q1'')])"
  by (simp add: example_env_def example_command_def example_remove_statement_def
    RemoveStatement_init_def load_ids_to_delete_def
    get_statements_for_our_property_def client_def invoke_def parser_value_to_api_value_def
    subscript_def get_def py_len_def py_iter_def Let_def has_value_def)

text \<open>
  C10. When the property has statements and none of them has the translated target
  value, the constructor raises \<^verbatim>\<open>NoStatementsWithThatValue\<close> with the \<^verbatim>\<open>value\<close> field of the
  target as third argument whenever the target has this field, whatever its type; it
  raises \<^verbatim>\<open>KeyError('value')\<close> when the target has no such field, and then the type of
  the target is \<^verbatim>\<open>novalue\<close> or \<^verbatim>\<open>somevalue\<close>.
\<close>

theorem RemoveStatement_init_no_match:
  assumes "subscript (json c) ''entity'' = Inr entity"
      and "subscript entity ''id'' = Inr eid"
      and "subscript (json c) ''property'' = Inr pid"
      and "subscript (json c) ''value'' = Inr pv"
      and "parser_value_to_api_value pv = Inr av"
      and "has_token env (user (batch c))"
      and "api env (user (batch c)) log (get_statements eid) = Inr all_statements"
      and "get all_statements pid (JList []) = Inr our"
      and "py_iter our = Inr sts"
      and "sts \<noteq> []"
      and "list_all (\<lambda>s. \<exists>i v. subscript s ''id'' = Inr i \<and> subscript s ''value'' = Inr v
                      \<and> \<not> py_eq v av) sts"
  shows "(\<forall>x. subscript pv ''value'' = Inr x \<longrightarrow>
            fst (RemoveStatement_init env c log) = Inl (NoStatementsWithThatValue eid pid x))
       \<and> ((\<forall>x. subscript pv ''value'' \<noteq> Inr x) \<longrightarrow>
            fst (RemoveStatement_init env c log) = Inl (KeyError ''value'')
            \<and> (subscript pv ''type'' = Inr (JStr ''novalue'')
                 \<or> subscript pv ''type'' = Inr (JStr ''somevalue'')))"
proof -
  from matching_ids_none [OF assms(11)] have none: "matching_ids av sts [] = Inr []" .
  have init: "fst (RemoveStatement_init env c log) =
          (case subscript pv ''value'' of
             Inl e \<Rightarrow> Inl e
           | Inr x \<Rightarrow> Inl (NoStatementsWithThatValue eid pid x))"
    using RemoveStatement_init_steps [OF assms(1-9) none] assms(10) by simp
  have missing: "subscript pv ''value'' = Inl (KeyError ''value'')
            \<and> (subscript pv ''type'' = Inr (JStr ''novalue'')
                 \<or> subscript pv ''type'' = Inr (JStr ''somevalue''))"
    if "\<forall>x. subscript pv ''value'' \<noteq> Inr x"
    using that assms(5)
    by (auto simp add: parser_value_to_api_value_def subscript_def
          split: sum.splits json_value.splits option.splits if_splits)
  show ?thesis
    using init missing by (auto split: sum.splits)
qed

theorem RemoveStatement_init_no_match_witness:
  "fst (RemoveStatement_init example_env
         (example_remove_statement ''P31'' (JObj [(''type'', JStr ''somevalue'')])) [])
     = Inl (KeyError ''value'')
   \<and> fst (RemoveStatement_init example_env
         (example_remove_statement ''P31''
            (JObj [(''type'', JStr ''somevalue''), (''value'', JStr ''unknown'')])) [])
     = Inl (NoStatementsWithThatValue (JStr ''Q1'') (JStr ''P31'') (JStr ''unknown''))"
proof -
  note example_defs = example_env_def example_command_def example_remove_statement_def
  let ?bare = "JObj [(''type'', JStr ''somevalue'')]"
  let ?full = "JObj [(''type'', JStr ''somevalue''), (''value'', JStr ''unknown'')]"
  let ?entity = "JObj [(''type'', JStr ''item''), (''id'', JStr ''Q1'')]"
  let ?sts = "[JObj [(''id'', JStr ''Q1$a''),
                     (''value'', JObj [(''content'', JStr ''Q5''), (''type'', JStr ''value'')])],
               JObj [(''id'', JStr ''Q1$b''),
                     (''value'', JObj [(''type'', JStr ''novalue'')])],
               JObj [(''id'', JStr ''Q1$c''),
                     (''value'', JObj [(''type'', JStr ''value''), (''content'', JStr ''Q5'')])]]"
  let ?all = "JObj [(''P31'', JList ?sts)]"
  have c: "subscript (json (example_remove_statement ''P31'' pv)) ''entity'' = Inr ?entity"
          "subscript ?entity ''id'' = Inr (JStr ''Q1'')"
          "subscript (json (example_remove_statement ''P31'' pv)) ''property'' = Inr (JStr ''P31'')"
          "subscript (json (example_remove_statement ''P31'' pv)) ''value'' = Inr pv" for pv
    by (simp_all add: example_defs subscript_def)
  have av: "parser_value_to_api_value ?bare = Inr ?bare"
           "parser_value_to_api_value ?full = Inr ?bare"
    by (simp_all add: parser_value_to_api_value_def subscript_def)
  have e: "has_token example_env (user (batch (example_remove_statement ''P31'' pv)))"
          "api example_env (user (batch (example_remove_statement ''P31'' pv))) []
             (get_statements (JStr ''Q1'')) = Inr ?all" for pv
    by (simp_all add: example_defs)
  have s: "get ?all (JStr ''P31'') (JList []) = Inr (JList ?sts)"
          "py_iter (JList ?sts) = Inr ?sts"
          "?sts \<noteq> []"
          "list_all (\<lambda>s. \<exists>i v. subscript s ''id'' = Inr i \<and> subscript s ''value'' = Inr v
                      \<and> \<not> py_eq v ?bare) ?sts"
    by (simp_all add: get_def py_iter_def subscript_def)
  from RemoveStatement_init_no_match [OF c av(1) e s]
  have a: "fst (RemoveStatement_init example_env (example_remove_statement ''P31'' ?bare) [])
             = Inl (KeyError ''value'')"
    by (simp add: subscript_def)
  from RemoveStatement_init_no_match [OF c av(2) e s]
  have b: "fst (RemoveStatement_init example_env (example_remove_statement ''P31'' ?full) [])
             = Inl (NoStatementsWithThatValue (JStr ''Q1'') (JStr ''P31'') (JStr ''unknown''))"
    by (simp add: subscript_def)
  from a b show ?thesis by simp
qed

text \<open>
  C10 does not hold of every target of type \<^verbatim>\<open>novalue\<close> or \<^verbatim>\<open>somevalue\<close>: for a target
  of type \<^verbatim>\<open>somevalue\<close> that has a \<^verbatim>\<open>value\<close> field, on statements none of which has its
  translation, the constructor raises \<^verbatim>\<open>NoStatementsWithThatValue\<close>, not a \<^verbatim>\<open>KeyError\<close>.
\<close>

theorem RemoveStatement_init_somevalue_with_value_field:
  "subscript (JObj [(''type'', JStr ''somevalue''), (''value'', JStr ''somevalue'')]) ''type''
     = Inr (JStr ''somevalue'')
   \<and> (\<exists>all_statements our sts.
         api example_env ''alice'' [] (get_statements (JStr ''Q1'')) = Inr all_statements
         \<and> get all_statements (JStr ''P31'') (JList []) = Inr our
         \<and> py_iter our = Inr sts
         \<and> filter (has_value (JObj [(''type'', JStr ''somevalue'')])) sts = [])
   \<and> fst (RemoveStatement_init example_env
         (example_remove_statement ''P31''
            (JObj [(''type'', JStr ''somevalue''), (''value'', JStr ''somevalue'')])) [])
     = Inl (NoStatementsWithThatValue (JStr ''Q1'') (JStr ''P31'') (JStr ''somevalue''))
   \<and> fst (RemoveStatement_init example_env
         (example_remove_statement ''P31''
            (JObj [(''type'', JStr ''somevalue''), (''value'', JStr ''somevalue'')])) [])
     \<noteq> Inl (KeyError ''value'')"
  by (simp add: example_env_def example_command_def example_remove_statement_def
    RemoveStatement_init_def load_ids_to_delete_def
    get_statements_for_our_property_def client_def invoke_def parser_value_to_api_value_def
    subscript_def get_def py_len_def py_iter_def Let_def has_value_def)

end
